theory Spec2Isabelle
  imports Complex_Main "HOL-Library.Char_ord" "HOL-Library.Sublist"
begin

section \<open>Data model\<close>

text \<open>
  The Pet entity (Entities/Pet.js and the fields written by PetAdopt and PetCare).
  JavaScript numbers are modelled as exact rationals for the stats and the coins, and as
  integers for the two counters that only ever move in whole steps (\<open>days_alive\<close>,
  \<open>experience\<close>); rounding of IEEE doubles is not modelled. An absent array field
  behaves like the empty array in every place the source reads it
  (\<open>pet.tricks || []\<close>, \<open>pet.toys?.includes\<close>), so the array fields are plain lists.
  Timestamps are milliseconds.
\<close>

datatype stage = Egg | Hatchling | Grown

datatype species = Dragon | Cerberus | Kitsune | Phoenix

record pet =
  pet_id :: nat
  name :: string
  species :: species
  stage :: stage
  hunger :: rat
  happiness :: rat
  energy :: rat
  hygiene :: rat
  health :: rat
  experience :: int
  coins :: rat
  has_insurance :: bool
  last_fed :: "int option"
  achievements :: "string list"
  color_variant :: string
  days_alive :: int
  tricks :: "string list"
  toys :: "string list"

text \<open>The Expense entity (Entities/Expense.js); \<open>exp_id\<close> is assigned by the store.\<close>

record expense =
  exp_id :: nat
  exp_pet_id :: nat
  exp_type :: string
  amount :: rat
  description :: string

text \<open>
  The \<open>data\<close> object handed to \<open>base44.entities.Pet.update(id, data)\<close>: a partial
  record, a field that the handler did not set is absent.
\<close>

record pet_update =
  u_days_alive :: "int option"
  u_last_fed :: "int option"
  u_experience :: "int option"
  u_hunger :: "rat option"
  u_hygiene :: "rat option"
  u_energy :: "rat option"
  u_happiness :: "rat option"
  u_health :: "rat option"
  u_coins :: "rat option"
  u_stage :: "stage option"
  u_has_insurance :: "bool option"
  u_achievements :: "string list option"
  u_tricks :: "string list option"
  u_toys :: "string list option"

definition no_update :: pet_update where
  "no_update = \<lparr>u_days_alive = None, u_last_fed = None, u_experience = None,
     u_hunger = None, u_hygiene = None, u_energy = None, u_happiness = None,
     u_health = None, u_coins = None, u_stage = None, u_has_insurance = None,
     u_achievements = None, u_tricks = None, u_toys = None\<rparr>"

definition or_else :: "'a option \<Rightarrow> 'a \<Rightarrow> 'a" where
  "or_else x d = (case x of None \<Rightarrow> d | Some v \<Rightarrow> v)"

text \<open>What the store does with a partial update: the fields present overwrite.\<close>

definition apply_update :: "pet_update \<Rightarrow> pet \<Rightarrow> pet" where
  "apply_update u p = p\<lparr>
     days_alive := or_else (u_days_alive u) (days_alive p),
     last_fed := (case u_last_fed u of None \<Rightarrow> last_fed p | Some t \<Rightarrow> Some t),
     experience := or_else (u_experience u) (experience p),
     hunger := or_else (u_hunger u) (hunger p),
     hygiene := or_else (u_hygiene u) (hygiene p),
     energy := or_else (u_energy u) (energy p),
     happiness := or_else (u_happiness u) (happiness p),
     health := or_else (u_health u) (health p),
     coins := or_else (u_coins u) (coins p),
     stage := or_else (u_stage u) (stage p),
     has_insurance := or_else (u_has_insurance u) (has_insurance p),
     achievements := or_else (u_achievements u) (achievements p),
     tricks := or_else (u_tricks u) (tricks p),
     toys := or_else (u_toys u) (toys p)\<rparr>"

text \<open>
  Toast messages passed to \<open>showNotification\<close>; the constructor stands for the message
  text, its arguments for the interpolated values.
\<close>

datatype notification =
    InsuranceSaved
  | HatchedIntoHatchling
  | NowFullyGrown
  | AchievementFirstMeal
  | YummySatisfied
  | HadFunPlaying
  | FeelsRefreshed
  | SparklyClean
  | HealthCheckComplete
  | AchievementFinancialGenius
  | EarnedCoins rat
  | InsuranceActivated
  | PerformedTrick string string
  | LearnedTrick string
  | BoughtToy string
  | NotEnoughForMemorial
  | MemorialCreated

text \<open>An Expense.create request: the record without the identifier the store adds.\<close>

record expense_data =
  ed_pet_id :: nat
  ed_type :: string
  ed_amount :: rat
  ed_description :: string

text \<open>
  What one handler run does to the outside: at most one Pet.update, the
  Expense.create requests it sent, and the notifications it showed, in order.
\<close>

record effects =
  mutation :: "pet_update option"
  created :: "expense_data list"
  shown :: "notification list"

definition no_effects :: effects where
  "no_effects = \<lparr>mutation = None, created = [], shown = []\<rparr>"

section \<open>Age-scaled prices (PetCare.jsx, lines 111--131)\<close>

text \<open>
  \<open>0.2\<close> is the rational one fifth here. In the doubles of the source the product and
  the sum are rounded: at 35 days the source has 2.4000000000000004 where this has 2.4, so a
  price that is a whole number here can come out one coin higher on the button there.
\<close>

definition getCostMultiplier :: "pet option \<Rightarrow> rat" where
  "getCostMultiplier po = (case po of None \<Rightarrow> 1
     | Some p \<Rightarrow> 1 + of_int (days_alive p div 5) * (2 / 10))"

definition getInsuranceCost :: "pet option \<Rightarrow> rat" where
  "getInsuranceCost po = (case po of None \<Rightarrow> 1 / 2
     | Some p \<Rightarrow> 1 / 2 + of_int (days_alive p div 5) * (1 / 2))"

definition getDayDuration :: "pet option \<Rightarrow> int" where
  "getDayDuration po = (case po of None \<Rightarrow> 120000
     | Some p \<Rightarrow> max 60 (120 - (days_alive p div 10) * 10) * 1000)"

section \<open>Day advance (PetCare.jsx, progressDay, lines 164--226)\<close>

text \<open>The four \<open>Math.random()\<close> results a day advance may consume, each in \<open>[0, 1)\<close>.\<close>

record draws =
  r_hunger :: rat
  r_hygiene :: rat
  r_energy :: rat
  r_health :: rat

definition unit_draw :: "rat \<Rightarrow> bool" where
  "unit_draw r = (0 \<le> r \<and> r < 1)"

definition valid_draws :: "draws \<Rightarrow> bool" where
  "valid_draws d = (unit_draw (r_hunger d) \<and> unit_draw (r_hygiene d) \<and>
     unit_draw (r_energy d) \<and> unit_draw (r_health d))"

definition ageMultiplier :: "pet \<Rightarrow> rat" where
  "ageMultiplier p = 1 + of_int (days_alive p div 15) * (1 / 10)"

definition criticalStats :: "pet \<Rightarrow> nat" where
  "criticalStats p = length (filter (\<lambda>s. s < 25) [hunger p, happiness p, hygiene p, energy p])"

definition lowStats :: "pet \<Rightarrow> nat" where
  "lowStats p = length (filter (\<lambda>s. s < 50) [hunger p, happiness p, hygiene p, energy p])"

text \<open>Lines 165--184: counters, timestamp and the decay of the four needs.\<close>

definition decayUpdates :: "pet \<Rightarrow> int \<Rightarrow> draws \<Rightarrow> pet_update" where
  "decayUpdates p now d =
    (let hungerDecay = (5 + r_hunger d * 8) * ageMultiplier p;
         hygieneDecay = (4 + r_hygiene d * 6) * ageMultiplier p;
         energyDecay = (3 + r_energy d * 4) * ageMultiplier p;
         happinessDecay = 3
     in no_update\<lparr>
          u_days_alive := Some (days_alive p + 1),
          u_last_fed := Some now,
          u_experience := Some (experience p + 1),
          u_hunger := Some (max 0 (hunger p - hungerDecay)),
          u_hygiene := Some (max 0 (hygiene p - hygieneDecay)),
          u_energy := Some (max 0 (energy p - energyDecay)),
          u_happiness := Some (max 0 (happiness p - happinessDecay))\<rparr>)"

text \<open>
  Lines 186--202: the health written before the insurance check, if any. With a draw in
  \<open>[0, 1)\<close> the two decays are below 15 and 7 here; in doubles the sums round and reach
  15 and 7 for the largest draw, so statements below use the closed ranges.
\<close>

definition healthDecayStep :: "pet \<Rightarrow> rat \<Rightarrow> rat option" where
  "healthDecayStep p r =
    (if criticalStats p \<ge> 2 then Some (max 0 (health p - (8 + r * 7)))
     else if lowStats p \<ge> 3 then Some (max 0 (health p - (3 + r * 4)))
     else if lowStats p = 0 \<and> health p < 100 then Some (min 100 (health p + 5))
     else None)"

text \<open>
  Lines 204--209: \<open>updates.health < 20\<close> is false when \<open>updates.health\<close> was never set.
\<close>

definition insuranceSaves :: "pet \<Rightarrow> rat option \<Rightarrow> bool" where
  "insuranceSaves p h = (has_insurance p \<and> (case h of None \<Rightarrow> False | Some v \<Rightarrow> v < 20))"

definition progressDay :: "pet \<Rightarrow> int \<Rightarrow> draws \<Rightarrow> effects" where
  "progressDay p now d =
    (let updates = decayUpdates p now d;
         updates = updates\<lparr>u_health := healthDecayStep p (r_health d)\<rparr>;
         saved = insuranceSaves p (u_health updates);
         updates = (if saved then updates\<lparr>u_health := Some 20\<rparr> else updates);
         insuranceCost = getInsuranceCost (Some p);
         updates = (if has_insurance p
                    then updates\<lparr>u_coins := Some (max 0 (coins p - insuranceCost))\<rparr>
                    else updates)
     in \<lparr>mutation = Some updates,
         created = (if has_insurance p
                    then [\<lparr>ed_pet_id = pet_id p, ed_type = ''insurance'',
                           ed_amount = insuranceCost,
                           ed_description = ''Daily insurance payment''\<rparr>]
                    else []),
         shown = (if saved then [InsuranceSaved] else [])\<rparr>)"

text \<open>The pet record after the store has applied a handler's mutation.\<close>

definition after :: "effects \<Rightarrow> pet \<Rightarrow> pet" where
  "after e p = (case mutation e of None \<Rightarrow> p | Some u \<Rightarrow> apply_update u p)"

section \<open>Evolution check (PetCare.jsx, lines 263--306)\<close>

text \<open>
  The effect returns at once when there is no pet or \<open>isEvolving\<close> is set. Otherwise it
  sends at most one mutation; the second component is the new value of \<open>isEvolving\<close>.
  The notification is the one shown by \<open>onSuccess\<close>; the timer that clears
  \<open>isEvolving\<close> one second later is the separate event \<open>EvolveDebounce\<close> below.
\<close>

definition evolutionCheck :: "pet option \<Rightarrow> bool \<Rightarrow> effects \<times> bool" where
  "evolutionCheck po isEvolving =
    (case po of None \<Rightarrow> (no_effects, isEvolving)
     | Some p \<Rightarrow>
        if isEvolving then (no_effects, isEvolving)
        else if stage p = Egg \<and> experience p \<ge> 3 then
          (\<lparr>mutation = Some (no_update\<lparr>u_stage := Some Hatchling, u_experience := Some 0,
               u_achievements := Some (achievements p @ [''hatchling''])\<rparr>),
            created = [], shown = [HatchedIntoHatchling]\<rparr>, True)
        else if stage p = Hatchling \<and> experience p \<ge> 5 then
          (\<lparr>mutation = Some (no_update\<lparr>u_stage := Some Grown,
               u_experience := Some (experience p),
               u_achievements := Some (achievements p @ [''fully_grown''])\<rparr>),
            created = [], shown = [NowFullyGrown]\<rparr>, True)
        else (no_effects, isEvolving))"

section \<open>Care actions (PetCare.jsx, handleCareAction, lines 313--373)\<close>

text \<open>
  The \<open>switch\<close>: the stat updates, the achievements, the expense description and the
  notifications of each action; an identifier outside the five falls through.
\<close>

definition careSwitch ::
  "pet \<Rightarrow> string \<Rightarrow> pet_update \<Rightarrow> pet_update \<times> string list \<times> string \<times> notification list" where
  "careSwitch p action updates =
    (if action = ''feed'' then
       (updates\<lparr>u_hunger := Some (min 100 (hunger p + 30)),
                u_energy := Some (min 100 (energy p + 10))\<rparr>,
        (if ''first_feed'' \<in> set (achievements p) then achievements p
         else achievements p @ [''first_feed'']),
        ''Fed pet'',
        (if ''first_feed'' \<in> set (achievements p) then [] else [AchievementFirstMeal])
          @ [YummySatisfied])
     else if action = ''play'' then
       (updates\<lparr>u_happiness := Some (min 100 (happiness p + 25)),
                u_energy := Some (max 0 (energy p - 10))\<rparr>,
        achievements p, ''Played with pet'', [HadFunPlaying])
     else if action = ''rest'' then
       (updates\<lparr>u_energy := Some (min 100 (energy p + 40)),
                u_happiness := Some (min 100 (happiness p + 5))\<rparr>,
        achievements p, ''Pet rest time'', [FeelsRefreshed])
     else if action = ''clean'' then
       (updates\<lparr>u_hygiene := Some (min 100 (hygiene p + 35)),
                u_happiness := Some (min 100 (happiness p + 5))\<rparr>,
        achievements p, ''Cleaned pet'', [SparklyClean])
     else if action = ''health'' then
       (updates\<lparr>u_health := Some (min 100 (health p + 30))\<rparr>,
        achievements p, ''Health checkup'', [HealthCheckComplete])
     else (updates, achievements p, [], []))"

definition handleCareAction :: "pet option \<Rightarrow> string \<Rightarrow> rat \<Rightarrow> effects" where
  "handleCareAction po action baseCost =
    (let cost = baseCost * getCostMultiplier po
     in case po of None \<Rightarrow> no_effects
        | Some p \<Rightarrow>
           if coins p < cost then no_effects
           else
             (case careSwitch p action (no_update\<lparr>u_coins := Some (coins p - cost)\<rparr>) of
                (updates, newAchievements, expenseDescription, msgs) \<Rightarrow>
                  \<lparr>mutation = Some (updates\<lparr>u_achievements := Some newAchievements\<rparr>),
                   created = (if cost > 0
                              then [\<lparr>ed_pet_id = pet_id p, ed_type = action,
                                     ed_amount = cost,
                                     ed_description = expenseDescription\<rparr>]
                              else []),
                   shown = msgs\<rparr>))"

subsection \<open>The buttons (CareActions.jsx)\<close>

definition actions :: "(string \<times> rat) list" where
  "actions = [(''feed'', 10), (''play'', 5), (''rest'', 0), (''clean'', 7), (''health'', 15)]"

definition actualCost :: "rat \<Rightarrow> rat \<Rightarrow> int" where
  "actualCost cost costMultiplier = \<lceil>cost * costMultiplier\<rceil>"

definition canAfford :: "rat \<Rightarrow> rat \<Rightarrow> rat \<Rightarrow> bool" where
  "canAfford coinsv cost costMultiplier = (coinsv \<ge> of_int (actualCost cost costMultiplier))"

text \<open>
  A click on the button of \<open>a\<close>: a disabled button does nothing, an enabled one calls
  \<open>onAction(action.id, action.cost)\<close>. \<open>disabled\<close> is \<open>updatePetMutation.isPending\<close>.
\<close>

definition clickCareAction :: "pet \<Rightarrow> bool \<Rightarrow> string \<times> rat \<Rightarrow> effects" where
  "clickCareAction p disabled a =
    (if disabled \<or> \<not> canAfford (coins p) (snd a) (getCostMultiplier (Some p)) then no_effects
     else handleCareAction (Some p) (fst a) (snd a))"

section \<open>Mini-game rewards\<close>

text \<open>
  \<open>handleFinish\<close> of TrashGame.jsx (one random draw), WireGame.jsx (the mistake count) and
  WindowGame (the cleaned percentage, an integer; \<open>Math.round\<close> rounds half up).
\<close>

datatype game_result = TrashDone rat | WireDone nat | WindowDone int

definition math_round :: "rat \<Rightarrow> int" where
  "math_round x = \<lfloor>x + 1 / 2\<rfloor>"

definition gameReward :: "game_result \<Rightarrow> rat" where
  "gameReward g = (case g of
      TrashDone r \<Rightarrow> 5 + of_int \<lfloor>r * 6\<rfloor>
    | WireDone mistakes \<Rightarrow> max (30 - of_nat mistakes * 5) 10
    | WindowDone cleanPercentage \<Rightarrow> of_int (math_round (of_int cleanPercentage * (25 / 100))))"

definition handleGameComplete :: "pet option \<Rightarrow> rat \<Rightarrow> effects" where
  "handleGameComplete po reward =
    (case po of None \<Rightarrow> no_effects
     | Some p \<Rightarrow>
        (let newCoins = coins p + reward;
             wealthy = (newCoins \<ge> 200 \<and> ''wealthy'' \<notin> set (achievements p))
         in \<lparr>mutation = Some (no_update\<lparr>u_coins := Some newCoins,
                u_achievements := Some (if wealthy then achievements p @ [''wealthy'']
                                        else achievements p)\<rparr>),
             created = [],
             shown = (if wealthy then [AchievementFinancialGenius] else [])
                       @ [EarnedCoins reward]\<rparr>))"

section \<open>Insurance purchase (PetCare.jsx, handleBuyInsurance, lines 398--418)\<close>

definition handleBuyInsurance :: "pet option \<Rightarrow> effects" where
  "handleBuyInsurance po =
    (case po of None \<Rightarrow> no_effects
     | Some p \<Rightarrow>
        if coins p < 15 then no_effects
        else \<lparr>mutation = Some (no_update\<lparr>u_has_insurance := Some True,
                 u_coins := Some (coins p - 15),
                 u_achievements := Some (achievements p @ [''insured''])\<rparr>),
              created = [\<lparr>ed_pet_id = pet_id p, ed_type = ''insurance'', ed_amount = 15,
                          ed_description = ''Insurance activation fee''\<rparr>],
              shown = [InsuranceActivated]\<rparr>)"

section \<open>Tricks (PetCare.jsx, lines 1372--1451 and 1150--1165)\<close>

record trick =
  trick_name :: string
  trick_id :: string
  trick_cost :: rat

definition trickCatalog :: "trick list" where
  "trickCatalog =
    [\<lparr>trick_name = ''Roll Over'', trick_id = ''roll'', trick_cost = 20\<rparr>,
     \<lparr>trick_name = ''Play Dead'', trick_id = ''dead'', trick_cost = 30\<rparr>,
     \<lparr>trick_name = ''Dance'', trick_id = ''dance'', trick_cost = 50\<rparr>,
     \<lparr>trick_name = ''Fireball'', trick_id = ''fireball'', trick_cost = 100\<rparr>]"

text \<open>
  A row of "Learn New Tricks": an unlocked trick shows a label and no button; the button
  is disabled below the price and its handler repeats that test.
\<close>

definition clickLearnTrick :: "pet \<Rightarrow> trick \<Rightarrow> effects" where
  "clickLearnTrick p t =
    (let unlocked = (trick_id t \<in> set (tricks p))
     in if unlocked then no_effects
        else if coins p \<ge> trick_cost t then
          \<lparr>mutation = Some (no_update\<lparr>u_coins := Some (coins p - trick_cost t),
             u_tricks := Some (tricks p @ [trick_id t])\<rparr>),
           created = [], shown = [LearnedTrick (trick_name t)]\<rparr>
        else no_effects)"

text \<open>
  Performing: the buttons exist for catalogue tricks the pet has learned; the second
  component is the new \<open>performingTrick\<close>.
\<close>

definition clickPerformTrick :: "pet \<Rightarrow> string option \<Rightarrow> trick \<Rightarrow> effects \<times> string option" where
  "clickPerformTrick p performingTrick t =
    (if trick_id t \<notin> set (tricks p) then (no_effects, performingTrick)
     else if energy p \<ge> 10 \<and> performingTrick = None then
       (\<lparr>mutation = Some (no_update\<lparr>u_happiness := Some (min 100 (happiness p + 15)),
            u_energy := Some (max 0 (energy p - 10)),
            u_experience := Some (experience p + 1)\<rparr>),
         created = [], shown = [PerformedTrick (name p) (trick_name t)]\<rparr>,
        Some (trick_id t))
     else (no_effects, performingTrick))"

section \<open>Toy shop (PetCare.jsx, lines 1486--1525)\<close>

text \<open>
  \<open>toy_owned_key\<close> is the literal the row passes to \<open>pet.toys?.includes\<close>; the
  identifier stored on purchase is \<open>toy.name.toLowerCase().replace(' ', '')\<close>.
\<close>

record toy =
  toy_name :: string
  toy_cost :: rat
  toy_happiness :: rat
  toy_owned_key :: string

definition toyCatalog :: "toy list" where
  "toyCatalog =
    [\<lparr>toy_name = ''Ball'', toy_cost = 10, toy_happiness = 5, toy_owned_key = ''ball''\<rparr>,
     \<lparr>toy_name = ''Squeaky Toy'', toy_cost = 20, toy_happiness = 10,
       toy_owned_key = ''squeaky''\<rparr>,
     \<lparr>toy_name = ''Magic Wand'', toy_cost = 40, toy_happiness = 15, toy_owned_key = ''wand''\<rparr>,
     \<lparr>toy_name = ''Golden Crown'', toy_cost = 100, toy_happiness = 25,
       toy_owned_key = ''crown''\<rparr>]"

definition toLowerCase_char :: "char \<Rightarrow> char" where
  "toLowerCase_char c =
    (if CHR ''A'' \<le> c \<and> c \<le> CHR ''Z'' then char_of (of_char c + (32::nat)) else c)"

definition toLowerCase :: "string \<Rightarrow> string" where
  "toLowerCase s = map toLowerCase_char s"

text \<open>\<open>s.replace(' ', '')\<close>: a string pattern replaces the first occurrence only.\<close>

fun replace_space :: "string \<Rightarrow> string" where
  "replace_space [] = []"
| "replace_space (c # cs) = (if c = CHR '' '' then cs else c # replace_space cs)"

definition toyId :: "toy \<Rightarrow> string" where
  "toyId t = replace_space (toLowerCase (toy_name t))"

definition clickBuyToy :: "pet \<Rightarrow> toy \<Rightarrow> effects" where
  "clickBuyToy p t =
    (let owned = (toy_owned_key t \<in> set (toys p))
     in if owned then no_effects
        else if coins p \<ge> toy_cost t then
          \<lparr>mutation = Some (no_update\<lparr>u_coins := Some (coins p - toy_cost t),
             u_toys := Some (toys p @ [toyId t]),
             u_happiness := Some (min 100 (happiness p + toy_happiness t))\<rparr>),
           created = [], shown = [BoughtToy (toy_name t)]\<rparr>
        else no_effects)"

section \<open>The entity store and the page state\<close>

text \<open>
  The remote store behind \<open>base44.entities\<close> (base44Client.js) as lists of entities with
  a counter for fresh identifiers, together with the React state of the PetCare page that
  the handlers read. The page's cached \<open>pets\<close> query is taken to be in step with the
  store: the handlers are created anew on every render and run on the record their
  predecessor left. The one callback that outlives a render is the day timer's
  \<open>progressDay\<close>: it closes over the \<open>pet\<close> of the render in which the day effect last
  ran, kept here as \<open>dayPet\<close>.
\<close>

record death_stats =
  ds_name :: string
  ds_daysLived :: int
  ds_happiness :: rat
  ds_totalSpent :: int
  ds_achievements :: nat
  ds_coins :: rat

record memorial =
  m_pet_name :: string
  m_species :: species
  m_color_variant :: string
  m_days_lived :: int
  m_stage_reached :: stage
  m_achievements :: "string list"
  m_tricks_learned :: "string list"
  m_date_passed :: int
  m_epitaph :: string
  m_memorial_type :: string
  m_total_coins_earned :: int

record world =
  pets :: "pet list"
  expenses :: "expense list"
  memorials :: "memorial list"
  next_id :: nat
  petDied :: bool
  deathStats :: "death_stats option"
  isEvolving :: bool
  performingTrick :: "string option"
  toasts :: "notification list"
  dayPet :: "pet option"

definition Pet_update :: "nat \<Rightarrow> pet_update \<Rightarrow> world \<Rightarrow> world" where
  "Pet_update i u w =
     w\<lparr>pets := map (\<lambda>p. if pet_id p = i then apply_update u p else p) (pets w)\<rparr>"

definition Pet_delete :: "nat \<Rightarrow> world \<Rightarrow> world" where
  "Pet_delete i w = w\<lparr>pets := filter (\<lambda>p. pet_id p \<noteq> i) (pets w)\<rparr>"

definition Expense_filter :: "nat \<Rightarrow> world \<Rightarrow> expense list" where
  "Expense_filter i w = filter (\<lambda>e. exp_pet_id e = i) (expenses w)"

definition Expense_create :: "expense_data \<Rightarrow> world \<Rightarrow> world" where
  "Expense_create d w =
     w\<lparr>expenses := expenses w @ [\<lparr>exp_id = next_id w, exp_pet_id = ed_pet_id d,
            exp_type = ed_type d, amount = ed_amount d, description = ed_description d\<rparr>],
       next_id := Suc (next_id w)\<rparr>"

definition Expense_delete :: "nat \<Rightarrow> world \<Rightarrow> world" where
  "Expense_delete i w = w\<lparr>expenses := filter (\<lambda>e. exp_id e \<noteq> i) (expenses w)\<rparr>"

text \<open>\<open>const pet = pets?.[0]\<close>\<close>

definition current_pet :: "world \<Rightarrow> pet option" where
  "current_pet w = (case pets w of [] \<Rightarrow> None | p # _ \<Rightarrow> Some p)"

text \<open>
  The day effect (PetCare.jsx, lines 153--239) has the dependencies
  \<open>[pet?.id, pet?.days_alive, pet?.last_fed]\<close>. After a render it runs again, clearing
  the old timer and closing over the current \<open>pet\<close>, only when one of them has changed;
  otherwise the timer set earlier stays, with the pet it was set for.
\<close>

definition dayEffectDeps :: "pet option \<Rightarrow> (nat \<times> int \<times> int option) option" where
  "dayEffectDeps po = map_option (\<lambda>p. (pet_id p, days_alive p, last_fed p)) po"

definition rerender :: "world \<Rightarrow> world" where
  "rerender w =
    (if dayEffectDeps (current_pet w) = dayEffectDeps (dayPet w) then w
     else w\<lparr>dayPet := current_pet w\<rparr>)"

text \<open>Carrying out what a handler asked for, against pet \<open>i\<close>.\<close>

definition commit :: "nat \<Rightarrow> effects \<Rightarrow> world \<Rightarrow> world" where
  "commit i e w =
    (let w1 = fold Expense_create (created e) w;
         w2 = (case mutation e of None \<Rightarrow> w1 | Some u \<Rightarrow> Pet_update i u w1)
     in w2\<lparr>toasts := toasts w2 @ shown e\<rparr>)"

text \<open>
  Which screen PetCare renders (lines 497--533, 962): the memorial screen replaces the
  whole care interface once \<open>petDied && deathStats\<close>.
\<close>

definition memorialScreen :: "world \<Rightarrow> bool" where
  "memorialScreen w = (current_pet w \<noteq> None \<and> petDied w \<and> deathStats w \<noteq> None)"

definition mainScreen :: "world \<Rightarrow> bool" where
  "mainScreen w = (current_pet w \<noteq> None \<and> \<not> (petDied w \<and> deathStats w \<noteq> None))"

subsection \<open>Death check (PetCare.jsx, lines 242--259)\<close>

definition deathCheck :: "world \<Rightarrow> world" where
  "deathCheck w =
    (case current_pet w of None \<Rightarrow> w
     | Some p \<Rightarrow>
        if health p \<le> 0 \<and> \<not> petDied w then
          (let totalSpent = sum_list (map amount (Expense_filter (pet_id p) w))
           in w\<lparr>deathStats := Some \<lparr>ds_name = name p,
                    ds_daysLived = (if days_alive p = 0 then 1 else days_alive p),
                    ds_happiness = happiness p,
                    ds_totalSpent = math_round totalSpent,
                    ds_achievements = length (achievements p),
                    ds_coins = coins p\<rparr>,
                 petDied := True\<rparr>)
        else w)"

subsection \<open>Leaving the memorial screen (PetCare.jsx, lines 428--485)\<close>

definition memorialCost :: "string \<Rightarrow> rat" where
  "memorialCost memorialType =
    (if memorialType = ''basic'' then 50 else if memorialType = ''golden'' then 75
     else if memorialType = ''legendary'' then 100 else 50)"

definition handleCreateMemorial :: "string \<Rightarrow> string \<Rightarrow> int \<Rightarrow> world \<Rightarrow> world" where
  "handleCreateMemorial memorialType memorialEpitaph now w =
    (case (current_pet w, deathStats w) of
       (Some p, Some ds) \<Rightarrow>
         if ds_coins ds < memorialCost memorialType
         then w\<lparr>toasts := toasts w @ [NotEnoughForMemorial]\<rparr>
         else
           (let m = \<lparr>m_pet_name = name p, m_species = species p,
                      m_color_variant = (if color_variant p = [] then ''default''
                                         else color_variant p),
                      m_days_lived = ds_daysLived ds, m_stage_reached = stage p,
                      m_achievements = achievements p, m_tricks_learned = tricks p,
                      m_date_passed = now, m_epitaph = memorialEpitaph,
                      m_memorial_type = memorialType,
                      m_total_coins_earned = ds_totalSpent ds\<rparr>;
                w1 = w\<lparr>memorials := memorials w @ [m],
                        toasts := toasts w @ [MemorialCreated]\<rparr>
            in Pet_delete (pet_id p) w1)
     | _ \<Rightarrow> w)"

definition handleAdoptNewPet :: "world \<Rightarrow> world" where
  "handleAdoptNewPet w = (case current_pet w of None \<Rightarrow> w | Some p \<Rightarrow> Pet_delete (pet_id p) w)"

text \<open>
  \<open>handleBuyMemorial\<close> opens the memorial dialog only from 50 coins on; its Create button
  is disabled while the epitaph is empty.
\<close>

definition memorialDialogOpens :: "world \<Rightarrow> bool" where
  "memorialDialogOpens w = (case deathStats w of None \<Rightarrow> False | Some ds \<Rightarrow> 50 \<le> ds_coins ds)"

subsection \<open>Reset (PetCare.jsx, handleResetPet, lines 420--426)\<close>

text \<open>\<open>confirmed\<close> is the answer to \<open>window.confirm\<close>.\<close>

definition handleResetPet :: "bool \<Rightarrow> world \<Rightarrow> world" where
  "handleResetPet confirmed w =
    (case current_pet w of None \<Rightarrow> w
     | Some p \<Rightarrow> if confirmed then Pet_delete (pet_id p) w else w)"

section \<open>Adoption (PetAdopt.jsx, validatePetName and handleAdopt)\<close>

text \<open>
  Characters are bytes here; of JavaScript's white space (\<open>trim\<close>, \<open>\s\<close>) that leaves
  tab, line feed, vertical tab, form feed, carriage return, space and no-break space.
\<close>

definition is_space :: "char \<Rightarrow> bool" where
  "is_space c = (c \<in> set [CHR 0x09, CHR 0x0A, CHR 0x0B, CHR 0x0C, CHR 0x0D, CHR 0x20, CHR 0xA0])"

definition trim :: "string \<Rightarrow> string" where
  "trim s = rev (dropWhile is_space (rev (dropWhile is_space s)))"

text \<open>One character of the class \<open>[a-zA-Z0-9\s'-]\<close>.\<close>

definition validNameChar :: "char \<Rightarrow> bool" where
  "validNameChar c =
    ((CHR ''a'' \<le> c \<and> c \<le> CHR ''z'') \<or> (CHR ''A'' \<le> c \<and> c \<le> CHR ''Z'') \<or>
     (CHR ''0'' \<le> c \<and> c \<le> CHR ''9'') \<or> is_space c \<or> c = CHR 0x27 \<or> c = CHR ''-'')"

fun str_includes :: "string \<Rightarrow> string \<Rightarrow> bool" where
  "str_includes [] w = (w = [])"
| "str_includes (c # cs) w = (prefix w (c # cs) \<or> str_includes cs w)"

definition inappropriateWords :: "string list" where
  "inappropriateWords = [''test123'', ''admin'', ''null'', ''undefined'']"

text \<open>The error message, or the empty string when the name is accepted.\<close>

definition validatePetName :: "string \<Rightarrow> string" where
  "validatePetName nm =
    (let trimmedName = trim nm
     in if trimmedName = [] then ''Please enter a name for your pet''
        else if length trimmedName < 2 then ''Name must be at least 2 characters''
        else if length trimmedName > 20 then ''Name must be 20 characters or less''
        else if \<not> list_all validNameChar trimmedName then
          ''Name can only contain letters, numbers, spaces, hyphens, and apostrophes''
        else if list_ex (\<lambda>word. str_includes (toLowerCase trimmedName) word) inappropriateWords
          then ''Please choose a different name''
        else [])"

definition Pet_create :: "pet \<Rightarrow> world \<Rightarrow> world" where
  "Pet_create d w = w\<lparr>pets := pets w @ [d\<lparr>pet_id := next_id w\<rparr>], next_id := Suc (next_id w)\<rparr>"

text \<open>The object literal of lines 218--235; the store fills in the identifier.\<close>

definition newPet :: "string \<Rightarrow> species \<Rightarrow> string \<Rightarrow> pet" where
  "newPet petName selectedPet selectedColor =
    \<lparr>pet_id = 0, name = trim petName, species = selectedPet, stage = Egg,
     hunger = 50, happiness = 50, energy = 50, hygiene = 50, health = 100,
     experience = 0, coins = 50, has_insurance = False, last_fed = None,
     achievements = [], color_variant = selectedColor, days_alive = 0,
     tricks = [], toys = []\<rparr>"

text \<open>The cleanup loop: for each existing pet, delete its expenses one by one, then the pet.\<close>

definition deletePetAndExpenses :: "pet \<Rightarrow> world \<Rightarrow> world" where
  "deletePetAndExpenses p w =
     Pet_delete (pet_id p) (fold (\<lambda>e. Expense_delete (exp_id e)) (Expense_filter (pet_id p) w) w)"

text \<open>
  A freshly mounted PetCare page: the initial values of its \<open>useState\<close> hooks, and the
  day effect run for the pet that is there.
\<close>

definition mountPetCare :: "world \<Rightarrow> world" where
  "mountPetCare w = w\<lparr>petDied := False, deathStats := None, isEvolving := False,
     performingTrick := None, dayPet := current_pet w\<rparr>"

text \<open>
  \<open>handleAdopt\<close> with every store request succeeding (a failed request leaves the
  \<open>try\<close> block and creates nothing). On success the page navigates to PetCare.
\<close>

definition handleAdopt :: "string \<Rightarrow> species option \<Rightarrow> string \<Rightarrow> world \<Rightarrow> world" where
  "handleAdopt petName selectedPet selectedColor w =
    (if validatePetName petName \<noteq> [] then w
     else case selectedPet of None \<Rightarrow> w
       | Some sp \<Rightarrow>
          (let existingPets = pets w;
               w1 = fold deletePetAndExpenses existingPets w;
               w2 = Pet_create (newPet petName sp selectedColor) w1
           in mountPetCare w2))"

section \<open>Events of the running application\<close>

datatype event =
    DayTimer int draws
  | DeathEffect
  | EvolutionEffect
  | EvolveDebounce
  | TrickTimeout
  | ClickCare "string \<times> rat"
  | GameFinished game_result
  | ClickBuyInsurance
  | ClickLearnTrick trick
  | ClickPerformTrick trick
  | ClickBuyToy toy
  | ClickCreateMemorial string string int
  | ClickAdoptNewPet
  | ClickResetPet bool
  | OpenPetCare
  | Adopt string "species option" string

text \<open>
  The effects run whenever there is a pet; the day timer runs \<open>progressDay\<close> for the
  pet it was set for. The controls of the care interface exist only while it is
  rendered, those of the memorial screen only there. Every change of the store is
  followed by a render (\<open>rerender\<close>).
\<close>

definition step :: "event \<Rightarrow> world \<Rightarrow> world" where
  "step ev w =
    (case ev of
       DayTimer now d \<Rightarrow>
         (case dayPet w of None \<Rightarrow> w
          | Some p \<Rightarrow> rerender (commit (pet_id p) (progressDay p now d) w))
     | DeathEffect \<Rightarrow> deathCheck w
     | EvolutionEffect \<Rightarrow>
         (case current_pet w of None \<Rightarrow> w
          | Some p \<Rightarrow>
             (case evolutionCheck (Some p) (isEvolving w) of
                (e, b) \<Rightarrow> rerender ((commit (pet_id p) e w)\<lparr>isEvolving := b\<rparr>)))
     | EvolveDebounce \<Rightarrow> w\<lparr>isEvolving := False\<rparr>
     | TrickTimeout \<Rightarrow> w\<lparr>performingTrick := None\<rparr>
     | ClickCare a \<Rightarrow>
         (case current_pet w of None \<Rightarrow> w
          | Some p \<Rightarrow> if mainScreen w \<and> a \<in> set actions
                      then rerender (commit (pet_id p) (clickCareAction p False a) w) else w)
     | GameFinished g \<Rightarrow>
         (case current_pet w of None \<Rightarrow> w
          | Some p \<Rightarrow> if mainScreen w
                      then rerender
                             (commit (pet_id p) (handleGameComplete (Some p) (gameReward g)) w)
                      else w)
     | ClickBuyInsurance \<Rightarrow>
         (case current_pet w of None \<Rightarrow> w
          | Some p \<Rightarrow> if mainScreen w
                      then rerender (commit (pet_id p) (handleBuyInsurance (Some p)) w)
                      else w)
     | ClickLearnTrick t \<Rightarrow>
         (case current_pet w of None \<Rightarrow> w
          | Some p \<Rightarrow> if mainScreen w \<and> t \<in> set trickCatalog
                      then rerender (commit (pet_id p) (clickLearnTrick p t) w) else w)
     | ClickPerformTrick t \<Rightarrow>
         (case current_pet w of None \<Rightarrow> w
          | Some p \<Rightarrow> if mainScreen w \<and> t \<in> set trickCatalog
                      then (case clickPerformTrick p (performingTrick w) t of
                              (e, pt) \<Rightarrow>
                                rerender ((commit (pet_id p) e w)\<lparr>performingTrick := pt\<rparr>))
                      else w)
     | ClickBuyToy t \<Rightarrow>
         (case current_pet w of None \<Rightarrow> w
          | Some p \<Rightarrow> if mainScreen w \<and> t \<in> set toyCatalog
                      then rerender (commit (pet_id p) (clickBuyToy p t) w) else w)
     | ClickCreateMemorial memorialType memorialEpitaph now \<Rightarrow>
         (if memorialScreen w \<and> memorialDialogOpens w \<and> memorialEpitaph \<noteq> []
          then rerender (handleCreateMemorial memorialType memorialEpitaph now w)
          else w)
     | ClickAdoptNewPet \<Rightarrow> (if memorialScreen w then rerender (handleAdoptNewPet w) else w)
     | ClickResetPet confirmed \<Rightarrow>
         (if mainScreen w then rerender (handleResetPet confirmed w) else w)
     | OpenPetCare \<Rightarrow> mountPetCare w
     | Adopt petName selectedPet selectedColor \<Rightarrow>
         handleAdopt petName selectedPet selectedColor w)"

text \<open>The values the environment can supply: random draws in \<open>[0, 1)\<close>, a percentage.\<close>

definition valid_event :: "event \<Rightarrow> bool" where
  "valid_event ev =
    (case ev of
       DayTimer now d \<Rightarrow> valid_draws d
     | GameFinished (TrashDone r) \<Rightarrow> unit_draw r
     | GameFinished (WindowDone c) \<Rightarrow> 0 \<le> c \<and> c \<le> 100
     | _ \<Rightarrow> True)"

text \<open>Everything the application can get to from a store that holds no pet yet.\<close>

inductive reachable :: "world \<Rightarrow> bool" where
  start: "pets w = [] \<Longrightarrow> reachable w"
| next_event: "reachable w \<Longrightarrow> valid_event ev \<Longrightarrow> reachable (step ev w)"

section \<open>Concrete pets and draws used in the examples\<close>

definition frail_pet :: pet where
  "frail_pet = \<lparr>pet_id = 1, name = ''Ember'', species = Dragon, stage = Egg,
     hunger = 10, happiness = 10, energy = 80, hygiene = 80, health = 5,
     experience = 0, coins = 50, has_insurance = False, last_fed = None,
     achievements = [], color_variant = ''default'', days_alive = 0,
     tricks = [], toys = []\<rparr>"

definition zero_draws :: draws where
  "zero_draws = \<lparr>r_hunger = 0, r_hygiene = 0, r_energy = 0, r_health = 0\<rparr>"

text \<open>Scenario 4 of the specification: insured, health 25, two needs critically low.\<close>

definition insured_pet :: pet where
  "insured_pet = frail_pet\<lparr>health := 25, has_insurance := True\<rparr>"

definition heavy_draws :: draws where
  "heavy_draws = \<lparr>r_hunger = 1 / 2, r_hygiene = 1 / 2, r_energy = 1 / 2, r_health = 6 / 7\<rparr>"


section \<open>Concrete worlds and runs used in the examples\<close>

definition empty_world :: world where
  "empty_world = \<lparr>pets = [], expenses = [], memorials = [], next_id = 1, petDied = False,
     deathStats = None, isEvolving = False, performingTrick = None, toasts = [],
     dayPet = None\<rparr>"

definition adopted_world :: world where
  "adopted_world = step (Adopt ''Ember'' (Some Dragon) ''default'') empty_world"

text \<open>The page is opened; three days go by, the evolution effect running after each.\<close>

definition three_days :: "int \<Rightarrow> draws \<Rightarrow> int \<Rightarrow> draws \<Rightarrow> int \<Rightarrow> draws \<Rightarrow> event list" where
  "three_days n1 d1 n2 d2 n3 d3 =
     [OpenPetCare, DayTimer n1 d1, EvolutionEffect, DayTimer n2 d2, EvolutionEffect,
      DayTimer n3 d3, EvolutionEffect]"

definition run :: "event list \<Rightarrow> world \<Rightarrow> world" where
  "run evs w = fold step evs w"

section \<open>The bounds of the numeric fields\<close>

definition in_bounds :: "pet \<Rightarrow> bool" where
  "in_bounds p =
    (0 \<le> hunger p \<and> hunger p \<le> 100 \<and> 0 \<le> happiness p \<and> happiness p \<le> 100 \<and>
     0 \<le> energy p \<and> energy p \<le> 100 \<and> 0 \<le> hygiene p \<and> hygiene p \<le> 100 \<and>
     0 \<le> health p \<and> health p \<le> 100 \<and>
     0 \<le> coins p \<and> 0 \<le> experience p \<and> 0 \<le> days_alive p)"

definition opt_all :: "('a \<Rightarrow> bool) \<Rightarrow> 'a option \<Rightarrow> bool" where
  "opt_all P x = (case x of None \<Rightarrow> True | Some v \<Rightarrow> P v)"

definition percent :: "rat \<Rightarrow> bool" where
  "percent v = (0 \<le> v \<and> v \<le> 100)"

definition update_ok :: "pet_update \<Rightarrow> bool" where
  "update_ok u =
    (opt_all percent (u_hunger u) \<and> opt_all percent (u_happiness u) \<and>
     opt_all percent (u_energy u) \<and> opt_all percent (u_hygiene u) \<and>
     opt_all percent (u_health u) \<and> opt_all (\<lambda>v. 0 \<le> v) (u_coins u) \<and>
     opt_all (\<lambda>v. 0 \<le> v) (u_experience u) \<and> opt_all (\<lambda>v. 0 \<le> v) (u_days_alive u))"

definition effects_ok :: "effects \<Rightarrow> bool" where
  "effects_ok e = opt_all update_ok (mutation e)"

text \<open>The stored pets are within bounds, and so is the timer's pet while there is a pet.\<close>

definition world_ok :: "world \<Rightarrow> bool" where
  "world_ok w = (list_all in_bounds (pets w) \<and> (pets w = [] \<or> opt_all in_bounds (dayPet w)))"

text \<open>A store that still holds two pets and an expense of each.\<close>

definition crowded_world :: world where
  "crowded_world = empty_world\<lparr>
     pets := [frail_pet, insured_pet\<lparr>pet_id := 2\<rparr>],
     expenses := [\<lparr>exp_id = 3, exp_pet_id = 1, exp_type = ''feed'', amount = 10,
                    description = ''Fed pet''\<rparr>,
                  \<lparr>exp_id = 4, exp_pet_id = 2, exp_type = ''insurance'', amount = 15,
                    description = ''Insurance activation fee''\<rparr>],
     next_id := 5\<rparr>"

text \<open>Five days old (cost multiplier 1.2), 50 coins.\<close>

definition aged_pet :: pet where
  "aged_pet = (newPet ''Ember'' Dragon ''default'')\<lparr>pet_id := 1, days_alive := 5\<rparr>"

text \<open>A pet with exactly 20 coins, and one with exactly 40.\<close>

definition pet20 :: pet where
  "pet20 = (newPet ''Ember'' Dragon ''default'')\<lparr>pet_id := 1, coins := 20\<rparr>"

definition pet40 :: pet where
  "pet40 = (newPet ''Ember'' Dragon ''default'')\<lparr>pet_id := 1, coins := 40\<rparr>"

definition roll_trick :: trick where
  "roll_trick = \<lparr>trick_name = ''Roll Over'', trick_id = ''roll'', trick_cost = 20\<rparr>"

definition squeaky_toy :: toy where
  "squeaky_toy = \<lparr>toy_name = ''Squeaky Toy'', toy_cost = 20, toy_happiness = 10,
     toy_owned_key = ''squeaky''\<rparr>"

section \<open>Death\<close>

text \<open>Death observed and recorded: the memorial screen is up.\<close>

definition recorded_dead :: "world \<Rightarrow> bool" where
  "recorded_dead w = (case current_pet w of None \<Rightarrow> False
     | Some p \<Rightarrow> health p \<le> 0 \<and> petDied w \<and> deathStats w \<noteq> None)"

text \<open>The controls of the care interface, and the two sources that are not controls.\<close>

definition care_control :: "event \<Rightarrow> bool" where
  "care_control ev = (case ev of ClickCare _ \<Rightarrow> True | GameFinished _ \<Rightarrow> True
     | ClickBuyInsurance \<Rightarrow> True | ClickLearnTrick _ \<Rightarrow> True | ClickPerformTrick _ \<Rightarrow> True
     | ClickBuyToy _ \<Rightarrow> True | ClickResetPet _ \<Rightarrow> True | _ \<Rightarrow> False)"

definition timer_or_evolution :: "event \<Rightarrow> bool" where
  "timer_or_evolution ev = (case ev of DayTimer _ _ \<Rightarrow> True | EvolutionEffect \<Rightarrow> True
     | _ \<Rightarrow> False)"

text \<open>A pet whose health has reached 0, before and after the death check has run.\<close>

definition dying_world :: world where
  "dying_world = empty_world\<lparr>pets := [frail_pet\<lparr>health := 0\<rparr>], next_id := 2,
     dayPet := Some (frail_pet\<lparr>health := 0\<rparr>)\<rparr>"

definition dead_world :: world where
  "dead_world = step DeathEffect dying_world"

section \<open>Concrete worlds of the day-advance examples\<close>

text \<open>The page open on one pet, the day timer set for it.\<close>

definition page_on :: "pet \<Rightarrow> world" where
  "page_on p = empty_world\<lparr>pets := [p], next_id := Suc (pet_id p), dayPet := Some p\<rparr>"

definition half_draws :: draws where
  "half_draws = \<lparr>r_hunger = 1 / 2, r_hygiene = 1 / 2, r_energy = 1 / 2, r_health = 1 / 2\<rparr>"


text \<open>Uninsured, health 25, two needs critically low, 50 coins.\<close>

definition sick_pet :: pet where
  "sick_pet = frail_pet\<lparr>health := 25\<rparr>"


section \<open>Day advance: the rule on the record the timer holds\<close>

lemma mutation_progressDay:
  "\<exists>u. mutation (progressDay p now d) = Some u"
  by (simp add: progressDay_def Let_def)

lemma u_health_progressDay:
  "mutation (progressDay p now d) = Some u \<Longrightarrow>
   u_health u = (case healthDecayStep p (r_health d) of None \<Rightarrow> None
      | Some v \<Rightarrow> if has_insurance p \<and> v < 20 then Some 20 else Some v)"
  by (auto simp add: progressDay_def Let_def insuranceSaves_def split: option.splits)



lemma stage_experience_after_progressDay:
  "stage (after (progressDay p now d) p) = stage p \<and>
   experience (after (progressDay p now d) p) = experience p + 1"
  by (simp add: after_def progressDay_def Let_def apply_update_def or_else_def
      decayUpdates_def no_update_def)

lemma deps_after_progressDay:
  "pet_id (after (progressDay p now d) p) = pet_id p \<and>
   days_alive (after (progressDay p now d) p) = days_alive p + 1"
  by (simp add: after_def progressDay_def Let_def apply_update_def or_else_def
      decayUpdates_def no_update_def)

text \<open>
  Where the record that \<open>progressDay\<close> reads is insured, a health value it writes is
  never below 20, and a value of the health rule below 20 is replaced by 20 with the
  notification.
\<close>

lemma insurance_floor_on_timer_record:
  assumes "has_insurance p"
  shows "\<exists>u. mutation (progressDay p now d) = Some u \<and>
           (\<forall>h. u_health u = Some h \<longrightarrow> 20 \<le> h) \<and>
           (\<forall>v. healthDecayStep p (r_health d) = Some v \<and> v < 20 \<longrightarrow>
                 u_health u = Some 20 \<and> InsuranceSaved \<in> set (shown (progressDay p now d)))"
proof -
  obtain u where u: "mutation (progressDay p now d) = Some u"
    using mutation_progressDay by blast
  have floor: "\<forall>h. u_health u = Some h \<longrightarrow> 20 \<le> h"
    using assms by (auto simp add: u_health_progressDay [OF u] split: option.splits if_splits)
  have clamp: "\<forall>v. healthDecayStep p (r_health d) = Some v \<and> v < 20 \<longrightarrow>
                 u_health u = Some 20 \<and> InsuranceSaved \<in> set (shown (progressDay p now d))"
    using assms
    by (auto simp add: u_health_progressDay [OF u] progressDay_def Let_def insuranceSaves_def)
  from u floor clamp show ?thesis by blast
qed

section \<open>The store under events\<close>

lemma pets_fold_Expense_create: "pets (fold Expense_create xs w) = pets w"
  by (induction xs arbitrary: w) (simp_all add: Expense_create_def)

lemma pets_commit:
  "pets (commit i e w) = map (\<lambda>q. if pet_id q = i then after e q else q) (pets w)"
  by (cases "mutation e")
     (simp_all add: commit_def Let_def Pet_update_def after_def pets_fold_Expense_create
        cong: if_cong)

lemma isEvolving_fold_Expense_create: "isEvolving (fold Expense_create xs w) = isEvolving w"
  by (induction xs arbitrary: w) (simp_all add: Expense_create_def)

lemma isEvolving_commit: "isEvolving (commit i e w) = isEvolving w"
  by (cases "mutation e")
     (simp_all add: commit_def Let_def Pet_update_def isEvolving_fold_Expense_create)

lemma dayPet_fold_Expense_create: "dayPet (fold Expense_create xs w) = dayPet w"
  by (induction xs arbitrary: w) (simp_all add: Expense_create_def)

lemma dayPet_commit: "dayPet (commit i e w) = dayPet w"
  by (cases "mutation e")
     (simp_all add: commit_def Let_def Pet_update_def dayPet_fold_Expense_create)

lemma pets_rerender: "pets (rerender w) = pets w"
  by (simp add: rerender_def)

lemma isEvolving_rerender: "isEvolving (rerender w) = isEvolving w"
  by (simp add: rerender_def)

lemma current_pet_rerender: "current_pet (rerender w) = current_pet w"
  by (simp add: current_pet_def pets_rerender)

lemma current_pet_commit:
  "current_pet w = Some p \<Longrightarrow> current_pet (commit (pet_id p) e w) = Some (after e p)"
  by (cases "pets w") (simp_all add: current_pet_def pets_commit)

text \<open>
  A day advance whose timer holds the stored record: the record becomes what
  \<open>progressDay\<close> makes of it, and the timer is set anew for that record.
\<close>

lemma step_DayTimer_current:
  assumes "current_pet w = Some p" and "dayPet w = Some p"
  shows "current_pet (step (DayTimer now d) w) = Some (after (progressDay p now d) p) \<and>
         dayPet (step (DayTimer now d) w) = Some (after (progressDay p now d) p)"
proof -
  let ?x = "commit (pet_id p) (progressDay p now d) w"
  have c: "current_pet ?x = Some (after (progressDay p now d) p)"
    using assms(1) by (rule current_pet_commit)
  have t: "dayPet ?x = Some p"
    using assms(2) by (simp add: dayPet_commit)
  have "dayEffectDeps (current_pet ?x) \<noteq> dayEffectDeps (dayPet ?x)"
    by (simp add: c t dayEffectDeps_def deps_after_progressDay)
  then have "rerender ?x = ?x\<lparr>dayPet := current_pet ?x\<rparr>"
    by (simp add: rerender_def)
  moreover have "step (DayTimer now d) w = rerender ?x"
    using assms(2) by (simp add: step_def)
  ultimately show ?thesis
    using c by (simp add: current_pet_def)
qed

section \<open>Evolution\<close>

lemma step_DayTimer_single:
  assumes "pets w = [p]" and "dayPet w = Some p"
  shows "pets (step (DayTimer now d) w) = [after (progressDay p now d) p] \<and>
     isEvolving (step (DayTimer now d) w) = isEvolving w \<and>
     dayPet (step (DayTimer now d) w) = Some (after (progressDay p now d) p)"
proof -
  have cp: "current_pet w = Some p"
    using assms(1) by (simp add: current_pet_def)
  have "pets (step (DayTimer now d) w) = [after (progressDay p now d) p]"
    using assms by (simp add: step_def pets_rerender pets_commit)
  moreover have "isEvolving (step (DayTimer now d) w) = isEvolving w"
    using assms by (simp add: step_def isEvolving_rerender isEvolving_commit)
  ultimately show ?thesis
    using step_DayTimer_current [OF cp assms(2), of now d] by simp
qed

lemma step_EvolutionEffect_single:
  "pets w = [p] \<Longrightarrow>
     pets (step EvolutionEffect w) = [after (fst (evolutionCheck (Some p) (isEvolving w))) p] \<and>
     isEvolving (step EvolutionEffect w) = snd (evolutionCheck (Some p) (isEvolving w))"
  by (simp add: step_def current_pet_def pets_commit pets_rerender isEvolving_rerender
      split: prod.splits)

lemma evolution_idle:
  "\<not> b \<Longrightarrow> stage p = Egg \<Longrightarrow> experience p < 3 \<Longrightarrow>
     evolutionCheck (Some p) b = (no_effects, False)"
  by (simp add: evolutionCheck_def)

lemma after_no_effects: "after no_effects p = p"
  by (simp add: after_def no_effects_def)

lemma step_EvolutionEffect_idle:
  assumes "pets w = [p]" and "dayPet w = Some p" and "\<not> isEvolving w"
    and "stage p = Egg" and "experience p < 3"
  shows "pets (step EvolutionEffect w) = [p] \<and> \<not> isEvolving (step EvolutionEffect w) \<and>
     dayPet (step EvolutionEffect w) = Some p"
proof -
  have idle: "evolutionCheck (Some p) (isEvolving w) = (no_effects, False)"
    using assms(3-5) by (simp add: evolution_idle)
  let ?x = "(commit (pet_id p) no_effects w)\<lparr>isEvolving := False\<rparr>"
  have s: "step EvolutionEffect w = rerender ?x"
    using assms(1) idle by (simp add: step_def current_pet_def)
  have px: "pets ?x = [p]"
    using assms(1) by (simp add: pets_commit after_no_effects)
  have tx: "dayPet ?x = Some p"
    using assms(2) by (simp add: dayPet_commit)
  have "rerender ?x = ?x"
    using px tx by (simp add: rerender_def current_pet_def)
  with s px tx show ?thesis by simp
qed

text \<open>
  C4. The evolution check, when it runs (\<open>isEvolving\<close> clear), makes exactly two
  transitions: an egg with experience at least 3 becomes a hatchling with experience 0 and
  the achievement \<open>hatchling\<close> appended; a hatchling with experience at least 5 becomes
  grown, keeps its experience and gets \<open>fully_grown\<close> appended. In every other case it
  sends no mutation. Hence an egg with experience 0 is, after three day advances (each
  followed by the check), a hatchling with experience 0.
\<close>

theorem C4_evolution:
  "(\<not> busy \<and> stage p = Egg \<and> experience p \<ge> 3 \<longrightarrow>
      (let q = after (fst (evolutionCheck (Some p) busy)) p
       in stage q = Hatchling \<and> experience q = 0 \<and>
          achievements q = achievements p @ [''hatchling'']))
 \<and> (\<not> busy \<and> stage p = Hatchling \<and> experience p \<ge> 5 \<longrightarrow>
      (let q = after (fst (evolutionCheck (Some p) busy)) p
       in stage q = Grown \<and> experience q = experience p \<and>
          achievements q = achievements p @ [''fully_grown'']))
 \<and> (busy \<or> \<not> (stage p = Egg \<and> experience p \<ge> 3) \<and>
        \<not> (stage p = Hatchling \<and> experience p \<ge> 5) \<longrightarrow>
      mutation (fst (evolutionCheck (Some p) busy)) = None)
 \<and> (pets w = [p] \<and> \<not> isEvolving w \<and> stage p = Egg \<and> experience p = 0 \<longrightarrow>
      (\<exists>q. pets (run (three_days n1 d1 n2 d2 n3 d3) w) = [q] \<and>
           stage q = Hatchling \<and> experience q = 0))"
proof -
  have t1: "\<not> busy \<and> stage p = Egg \<and> experience p \<ge> 3 \<longrightarrow>
      (let q = after (fst (evolutionCheck (Some p) busy)) p
       in stage q = Hatchling \<and> experience q = 0 \<and>
          achievements q = achievements p @ [''hatchling''])"
    by (simp add: evolutionCheck_def after_def apply_update_def or_else_def no_update_def)
  have t2: "\<not> busy \<and> stage p = Hatchling \<and> experience p \<ge> 5 \<longrightarrow>
      (let q = after (fst (evolutionCheck (Some p) busy)) p
       in stage q = Grown \<and> experience q = experience p \<and>
          achievements q = achievements p @ [''fully_grown''])"
    by (simp add: evolutionCheck_def after_def apply_update_def or_else_def no_update_def)
  have t3: "busy \<or> \<not> (stage p = Egg \<and> experience p \<ge> 3) \<and>
        \<not> (stage p = Hatchling \<and> experience p \<ge> 5) \<longrightarrow>
      mutation (fst (evolutionCheck (Some p) busy)) = None"
    by (auto simp add: evolutionCheck_def no_effects_def)
  have t4: "pets w = [p] \<and> \<not> isEvolving w \<and> stage p = Egg \<and> experience p = 0 \<longrightarrow>
      (\<exists>q. pets (run (three_days n1 d1 n2 d2 n3 d3) w) = [q] \<and>
           stage q = Hatchling \<and> experience q = 0)"
  proof
    assume a: "pets w = [p] \<and> \<not> isEvolving w \<and> stage p = Egg \<and> experience p = 0"
    define w0 where "w0 = step OpenPetCare w"
    define p1 where "p1 = after (progressDay p n1 d1) p"
    define w1 where "w1 = step (DayTimer n1 d1) w0"
    define w2 where "w2 = step EvolutionEffect w1"
    define p2 where "p2 = after (progressDay p1 n2 d2) p1"
    define w3 where "w3 = step (DayTimer n2 d2) w2"
    define w4 where "w4 = step EvolutionEffect w3"
    define p3 where "p3 = after (progressDay p2 n3 d3) p2"
    define w5 where "w5 = step (DayTimer n3 d3) w4"
    define w6 where "w6 = step EvolutionEffect w5"
    have s1: "stage p1 = Egg \<and> experience p1 = 1"
      using a by (simp add: p1_def stage_experience_after_progressDay)
    have s2: "stage p2 = Egg \<and> experience p2 = 2"
      using s1 by (simp add: p2_def stage_experience_after_progressDay)
    have s3: "stage p3 = Egg \<and> experience p3 = 3"
      using s2 by (simp add: p3_def stage_experience_after_progressDay)
    have w0: "pets w0 = [p] \<and> \<not> isEvolving w0 \<and> dayPet w0 = Some p"
      using a by (simp add: w0_def step_def mountPetCare_def current_pet_def)
    have w1: "pets w1 = [p1] \<and> \<not> isEvolving w1 \<and> dayPet w1 = Some p1"
      using w0 step_DayTimer_single [of w0 p n1 d1] by (simp add: w1_def p1_def)
    have w2: "pets w2 = [p1] \<and> \<not> isEvolving w2 \<and> dayPet w2 = Some p1"
      using w1 s1 step_EvolutionEffect_idle [of w1 p1] by (simp add: w2_def)
    have w3: "pets w3 = [p2] \<and> \<not> isEvolving w3 \<and> dayPet w3 = Some p2"
      using w2 step_DayTimer_single [of w2 p1 n2 d2] by (simp add: w3_def p2_def)
    have w4: "pets w4 = [p2] \<and> \<not> isEvolving w4 \<and> dayPet w4 = Some p2"
      using w3 s2 step_EvolutionEffect_idle [of w3 p2] by (simp add: w4_def)
    have w5: "pets w5 = [p3] \<and> \<not> isEvolving w5"
      using w4 step_DayTimer_single [of w4 p2 n3 d3] by (simp add: w5_def p3_def)
    have w6: "pets w6 = [after (fst (evolutionCheck (Some p3) False)) p3]"
      using w5 step_EvolutionEffect_single [of w5 p3] by (simp add: w6_def)
    have q: "stage (after (fst (evolutionCheck (Some p3) False)) p3) = Hatchling \<and>
             experience (after (fst (evolutionCheck (Some p3) False)) p3) = 0"
      using s3 by (simp add: evolutionCheck_def after_def apply_update_def or_else_def
          no_update_def)
    have "run (three_days n1 d1 n2 d2 n3 d3) w = w6"
      by (simp add: run_def three_days_def w6_def w5_def w4_def w3_def w2_def w1_def w0_def)
    with w6 q show "\<exists>q. pets (run (three_days n1 d1 n2 d2 n3 d3) w) = [q] \<and>
           stage q = Hatchling \<and> experience q = 0"
      by simp
  qed
  from t1 t2 t3 t4 show ?thesis by blast
qed

lemma pets_adopted_world:
  "pets adopted_world = [newPet ''Ember'' Dragon ''default''\<lparr>pet_id := 1\<rparr>] \<and>
   \<not> isEvolving adopted_world"
  by code_simp

theorem C4_evolution_witness:
  "pets adopted_world = [newPet ''Ember'' Dragon ''default''\<lparr>pet_id := 1\<rparr>] \<and>
   \<not> isEvolving adopted_world \<and>
   map stage (pets (run (three_days 1 zero_draws 2 heavy_draws 3 zero_draws) adopted_world))
     = [Hatchling] \<and>
   map experience (pets (run (three_days 1 zero_draws 2 heavy_draws 3 zero_draws) adopted_world))
     = [0]"
  using C4_evolution [of False "newPet ''Ember'' Dragon ''default''\<lparr>pet_id := 1\<rparr>"
      adopted_world 1 zero_draws 2 heavy_draws 3 zero_draws] pets_adopted_world
  by (auto simp add: newPet_def)

section \<open>Bounds are kept by every operation\<close>

lemma apply_update_in_bounds:
  "update_ok u \<Longrightarrow> in_bounds q \<Longrightarrow> in_bounds (apply_update u q)"
  by (simp add: update_ok_def in_bounds_def apply_update_def or_else_def opt_all_def percent_def
      split: option.splits)

lemma after_in_bounds: "effects_ok e \<Longrightarrow> in_bounds q \<Longrightarrow> in_bounds (after e q)"
  by (simp add: effects_ok_def after_def opt_all_def apply_update_in_bounds split: option.splits)

lemma commit_in_bounds:
  "effects_ok e \<Longrightarrow> list_all in_bounds (pets w) \<Longrightarrow> list_all in_bounds (pets (commit i e w))"
  by (auto simp add: pets_commit list_all_iff after_in_bounds)

lemma no_effects_ok: "effects_ok no_effects"
  by (simp add: effects_ok_def no_effects_def opt_all_def)

lemma ageMultiplier_ge_1: "0 \<le> days_alive p \<Longrightarrow> 1 \<le> ageMultiplier p"
  by (simp add: ageMultiplier_def pos_imp_zdiv_nonneg_iff)

lemma decay_nonneg:
  assumes "0 \<le> r" and "0 \<le> days_alive p" and "0 \<le> a" and "0 \<le> b"
  shows "0 \<le> (a + r * b) * ageMultiplier p"
proof -
  have "0 \<le> ageMultiplier p" using ageMultiplier_ge_1 [OF assms(2)] by simp
  moreover have "0 \<le> a + r * b" using assms by simp
  ultimately show ?thesis by simp
qed

lemma healthDecayStep_percent:
  assumes "in_bounds p" and "unit_draw r"
  shows "opt_all percent (healthDecayStep p r)"
proof -
  have "0 \<le> r * 7" "0 \<le> r * 4" using assms(2) by (simp_all add: unit_draw_def)
  then show ?thesis
    using assms(1)
    by (auto simp add: healthDecayStep_def opt_all_def percent_def in_bounds_def)
qed

lemma progressDay_ok:
  assumes b: "in_bounds p" and d: "valid_draws d"
  shows "effects_ok (progressDay p now d)"
proof -
  have da: "0 \<le> days_alive p" using b by (simp add: in_bounds_def)
  have r: "0 \<le> r_hunger d" "0 \<le> r_hygiene d" "0 \<le> r_energy d" "unit_draw (r_health d)"
    using d by (simp_all add: valid_draws_def unit_draw_def)
  have h1: "0 \<le> (5 + r_hunger d * 8) * ageMultiplier p"
    using decay_nonneg [OF r(1) da] by simp
  have h2: "0 \<le> (4 + r_hygiene d * 6) * ageMultiplier p"
    using decay_nonneg [OF r(2) da] by simp
  have h3: "0 \<le> (3 + r_energy d * 4) * ageMultiplier p"
    using decay_nonneg [OF r(3) da] by simp
  have hh: "opt_all percent (healthDecayStep p (r_health d))"
    using healthDecayStep_percent [OF b r(4)] .
  show ?thesis
    using b h1 h2 h3 hh
    by (auto simp add: effects_ok_def progressDay_def Let_def update_ok_def opt_all_def
        percent_def decayUpdates_def no_update_def in_bounds_def insuranceSaves_def
        split: option.splits)
qed

lemma getCostMultiplier_ge_1: "0 \<le> days_alive p \<Longrightarrow> 1 \<le> getCostMultiplier (Some p)"
  by (simp add: getCostMultiplier_def pos_imp_zdiv_nonneg_iff)

lemma careSwitch_ok:
  assumes "in_bounds p" and "update_ok u" and "careSwitch p action u = (u', ach, descr, msgs)"
  shows "update_ok (u'\<lparr>u_achievements := Some ach\<rparr>)"
  using assms
  by (auto simp add: careSwitch_def update_ok_def opt_all_def percent_def in_bounds_def
      split: if_splits)

lemma handleCareAction_ok:
  assumes b: "in_bounds p" and c: "0 \<le> baseCost"
  shows "effects_ok (handleCareAction (Some p) action baseCost)"
proof (cases "coins p < baseCost * getCostMultiplier (Some p)")
  case True
  then show ?thesis by (simp add: handleCareAction_def Let_def no_effects_ok)
next
  case False
  obtain u' ach descr msgs where sw:
    "careSwitch p action (no_update\<lparr>u_coins := Some (coins p - baseCost * getCostMultiplier (Some p))\<rparr>)
       = (u', ach, descr, msgs)"
    by (metis prod_cases4)
  have "update_ok (no_update\<lparr>u_coins := Some (coins p - baseCost * getCostMultiplier (Some p))\<rparr>)"
    using False by (simp add: update_ok_def opt_all_def no_update_def)
  then have "update_ok (u'\<lparr>u_achievements := Some ach\<rparr>)"
    using careSwitch_ok [OF b _ sw] by simp
  then show ?thesis
    using False sw by (simp add: handleCareAction_def Let_def effects_ok_def opt_all_def)
qed

lemma clickCareAction_ok:
  "in_bounds p \<Longrightarrow> a \<in> set actions \<Longrightarrow> effects_ok (clickCareAction p disabled a)"
  by (auto simp add: clickCareAction_def no_effects_ok actions_def intro: handleCareAction_ok)

lemma gameReward_nonneg:
  assumes "valid_event (GameFinished g)"
  shows "0 \<le> gameReward g"
proof (cases g)
  case (TrashDone r)
  then have "0 \<le> r * 6" using assms by (simp add: valid_event_def unit_draw_def)
  then have "0 \<le> \<lfloor>r * 6\<rfloor>" by simp
  then show ?thesis using TrashDone by (simp add: gameReward_def)
next
  case (WireDone m)
  then show ?thesis by (simp add: gameReward_def)
next
  case (WindowDone c)
  then have "0 \<le> of_int c * (25 / 100) + (1 / 2 :: rat)"
    using assms by (simp add: valid_event_def)
  then have "0 \<le> \<lfloor>of_int c * (25 / 100) + (1 / 2 :: rat)\<rfloor>" by simp
  then show ?thesis using WindowDone by (simp add: gameReward_def math_round_def)
qed

lemma handleGameComplete_ok:
  "in_bounds p \<Longrightarrow> 0 \<le> reward \<Longrightarrow> effects_ok (handleGameComplete (Some p) reward)"
  by (simp add: handleGameComplete_def Let_def effects_ok_def opt_all_def update_ok_def
      no_update_def in_bounds_def)

lemma handleBuyInsurance_ok: "in_bounds p \<Longrightarrow> effects_ok (handleBuyInsurance (Some p))"
  by (simp add: handleBuyInsurance_def effects_ok_def opt_all_def update_ok_def
      no_update_def no_effects_def)

lemma clickLearnTrick_ok: "in_bounds p \<Longrightarrow> effects_ok (clickLearnTrick p t)"
  by (simp add: clickLearnTrick_def Let_def effects_ok_def opt_all_def update_ok_def
      no_update_def no_effects_def)

lemma clickPerformTrick_ok:
  "in_bounds p \<Longrightarrow> effects_ok (fst (clickPerformTrick p pt t))"
  by (simp add: clickPerformTrick_def effects_ok_def opt_all_def update_ok_def
      no_update_def no_effects_def percent_def in_bounds_def)

lemma clickBuyToy_ok:
  "in_bounds p \<Longrightarrow> t \<in> set toyCatalog \<Longrightarrow> effects_ok (clickBuyToy p t)"
  by (auto simp add: clickBuyToy_def Let_def effects_ok_def opt_all_def update_ok_def
      no_update_def no_effects_def percent_def in_bounds_def toyCatalog_def)

lemma evolutionCheck_ok:
  "in_bounds p \<Longrightarrow> effects_ok (fst (evolutionCheck (Some p) b))"
  by (simp add: evolutionCheck_def effects_ok_def opt_all_def update_ok_def
      no_update_def no_effects_def in_bounds_def)

lemma current_pet_in_bounds:
  "list_all in_bounds (pets w) \<Longrightarrow> current_pet w = Some p \<Longrightarrow> in_bounds p"
  by (cases "pets w") (simp_all add: current_pet_def)

lemma Pet_delete_in_bounds:
  "list_all in_bounds (pets w) \<Longrightarrow> list_all in_bounds (pets (Pet_delete i w))"
  by (simp add: Pet_delete_def list_all_iff)

lemma pets_fold_Expense_delete:
  "pets (fold (\<lambda>e. Expense_delete (exp_id e)) es w) = pets w"
  by (induction es arbitrary: w) (simp_all add: Expense_delete_def)

lemma pets_deletePetAndExpenses:
  "pets (deletePetAndExpenses p w) = filter (\<lambda>q. pet_id q \<noteq> pet_id p) (pets w)"
  by (simp add: deletePetAndExpenses_def Pet_delete_def pets_fold_Expense_delete)

lemma pets_fold_deletePetAndExpenses:
  "pets (fold deletePetAndExpenses ps w) = filter (\<lambda>q. pet_id q \<notin> pet_id ` set ps) (pets w)"
proof (induction ps arbitrary: w)
  case Nil
  then show ?case by simp
next
  case (Cons p ps)
  have "filter (\<lambda>q. pet_id q \<notin> pet_id ` set ps) (filter (\<lambda>q. pet_id q \<noteq> pet_id p) (pets w))
      = filter (\<lambda>q. pet_id q \<notin> pet_id ` set (p # ps)) (pets w)"
    by (induction "pets w") auto
  then show ?case by (simp add: Cons.IH pets_deletePetAndExpenses)
qed

lemma pets_cleanup_empty: "pets (fold deletePetAndExpenses (pets w) w) = []"
  by (simp add: pets_fold_deletePetAndExpenses filter_empty_conv)

lemma pets_handleAdopt:
  "validatePetName nm = [] \<Longrightarrow>
   pets (handleAdopt nm (Some sp) col w)
     = [newPet nm sp col\<lparr>pet_id := next_id (fold deletePetAndExpenses (pets w) w)\<rparr>]"
  by (simp add: handleAdopt_def Let_def mountPetCare_def Pet_create_def pets_cleanup_empty)

lemma newPet_in_bounds: "in_bounds (newPet nm sp col\<lparr>pet_id := i\<rparr>)"
  by (simp add: in_bounds_def newPet_def)

lemma handleAdopt_in_bounds:
  "list_all in_bounds (pets w) \<Longrightarrow> list_all in_bounds (pets (handleAdopt nm sel col w))"
proof (cases "validatePetName nm = [] \<and> sel \<noteq> None")
  case True
  then obtain sp where "sel = Some sp" by blast
  with True show ?thesis by (simp add: pets_handleAdopt newPet_in_bounds)
next
  case False
  moreover assume "list_all in_bounds (pets w)"
  ultimately show ?thesis by (auto simp add: handleAdopt_def)
qed

lemma handleCreateMemorial_in_bounds:
  "list_all in_bounds (pets w) \<Longrightarrow> list_all in_bounds (pets (handleCreateMemorial ty ep now w))"
  by (auto simp add: handleCreateMemorial_def Let_def Pet_delete_def list_all_iff
      split: option.splits)

lemma handleAdoptNewPet_in_bounds:
  "list_all in_bounds (pets w) \<Longrightarrow> list_all in_bounds (pets (handleAdoptNewPet w))"
  by (auto simp add: handleAdoptNewPet_def Pet_delete_def list_all_iff split: option.splits)

lemma handleResetPet_in_bounds:
  "list_all in_bounds (pets w) \<Longrightarrow> list_all in_bounds (pets (handleResetPet c w))"
  by (auto simp add: handleResetPet_def Pet_delete_def list_all_iff split: option.splits)

lemma deathCheck_pets: "pets (deathCheck w) = pets w"
  by (simp add: deathCheck_def Let_def split: option.splits)

lemma world_ok_empty: "pets w = [] \<Longrightarrow> world_ok w"
  by (simp add: world_ok_def)

lemma world_ok_current_pet: "world_ok w \<Longrightarrow> current_pet w = Some p \<Longrightarrow> in_bounds p"
  by (auto simp add: world_ok_def dest: current_pet_in_bounds)

lemma world_ok_dayPet:
  "world_ok w \<Longrightarrow> pets w \<noteq> [] \<Longrightarrow> dayPet w = Some s \<Longrightarrow> in_bounds s"
  by (simp add: world_ok_def opt_all_def)

lemma world_ok_rerender: "world_ok w \<Longrightarrow> world_ok (rerender w)"
  by (cases "pets w") (simp_all add: world_ok_def rerender_def current_pet_def opt_all_def)

lemma world_ok_commit:
  assumes "effects_ok e" and "world_ok w"
  shows "world_ok (commit i e w)"
proof -
  have "list_all in_bounds (pets (commit i e w))"
    using assms by (simp add: world_ok_def commit_in_bounds)
  moreover have "pets (commit i e w) = [] \<longleftrightarrow> pets w = []"
    by (simp add: pets_commit)
  ultimately show ?thesis
    using assms(2) by (simp add: world_ok_def dayPet_commit)
qed

lemma world_ok_Pet_delete: "world_ok w \<Longrightarrow> world_ok (Pet_delete i w)"
  by (auto simp add: world_ok_def Pet_delete_def list_all_iff)

lemma world_ok_handleCreateMemorial:
  "world_ok w \<Longrightarrow> world_ok (handleCreateMemorial ty ep now w)"
  by (auto simp add: world_ok_def handleCreateMemorial_def Let_def Pet_delete_def list_all_iff
      split: option.splits)

lemma world_ok_handleAdoptNewPet: "world_ok w \<Longrightarrow> world_ok (handleAdoptNewPet w)"
  by (simp add: handleAdoptNewPet_def world_ok_Pet_delete split: option.splits)

lemma world_ok_handleResetPet: "world_ok w \<Longrightarrow> world_ok (handleResetPet c w)"
  by (simp add: handleResetPet_def world_ok_Pet_delete split: option.splits)

lemma world_ok_mountPetCare: "world_ok w \<Longrightarrow> world_ok (mountPetCare w)"
  by (cases "pets w") (simp_all add: world_ok_def mountPetCare_def current_pet_def opt_all_def)

lemma dayPet_handleAdopt:
  "validatePetName nm = [] \<Longrightarrow>
   dayPet (handleAdopt nm (Some sp) col w)
     = Some (newPet nm sp col\<lparr>pet_id := next_id (fold deletePetAndExpenses (pets w) w)\<rparr>)"
  by (simp add: handleAdopt_def Let_def mountPetCare_def Pet_create_def pets_cleanup_empty
      current_pet_def)

lemma world_ok_handleAdopt: "world_ok w \<Longrightarrow> world_ok (handleAdopt nm sel col w)"
proof (cases "validatePetName nm = [] \<and> sel \<noteq> None")
  case True
  then obtain sp where "sel = Some sp" by blast
  with True show ?thesis
    by (simp add: world_ok_def pets_handleAdopt dayPet_handleAdopt newPet_in_bounds opt_all_def)
next
  case False
  moreover assume "world_ok w"
  ultimately show ?thesis by (auto simp add: handleAdopt_def)
qed

lemma world_ok_deathCheck: "world_ok w \<Longrightarrow> world_ok (deathCheck w)"
  by (simp add: world_ok_def deathCheck_def Let_def split: option.splits)

lemma step_ok:
  assumes inv: "world_ok w" and ev: "valid_event ev"
  shows "world_ok (step ev w)"
proof (cases ev)
  case (DayTimer now d)
  show ?thesis
  proof (cases "dayPet w")
    case None
    then show ?thesis using inv DayTimer by (simp add: step_def)
  next
    case (Some s)
    have "world_ok (commit (pet_id s) (progressDay s now d) w)"
    proof (cases "pets w = []")
      case True
      then show ?thesis by (simp add: world_ok_empty pets_commit)
    next
      case False
      have "valid_draws d" using ev DayTimer by (simp add: valid_event_def)
      then have "effects_ok (progressDay s now d)"
        using world_ok_dayPet [OF inv False Some] by (simp add: progressDay_ok)
      then show ?thesis using inv by (rule world_ok_commit)
    qed
    then show ?thesis using Some DayTimer by (simp add: step_def world_ok_rerender)
  qed
next
  case DeathEffect
  then show ?thesis using inv by (simp add: step_def world_ok_deathCheck)
next
  case EvolutionEffect
  show ?thesis
  proof (cases "current_pet w")
    case None
    then show ?thesis using inv EvolutionEffect by (simp add: step_def)
  next
    case (Some p)
    obtain e b where eb: "evolutionCheck (Some p) (isEvolving w) = (e, b)"
      by (cases "evolutionCheck (Some p) (isEvolving w)")
    have "effects_ok e"
      using evolutionCheck_ok [OF world_ok_current_pet [OF inv Some], of "isEvolving w"] eb
      by simp
    then have "world_ok (commit (pet_id p) e w)" using inv by (rule world_ok_commit)
    then have "world_ok ((commit (pet_id p) e w)\<lparr>isEvolving := b\<rparr>)"
      by (simp add: world_ok_def)
    then show ?thesis
      using Some eb EvolutionEffect by (simp add: step_def world_ok_rerender)
  qed
next
  case EvolveDebounce
  then show ?thesis using inv by (simp add: step_def world_ok_def)
next
  case TrickTimeout
  then show ?thesis using inv by (simp add: step_def world_ok_def)
next
  case (ClickCare a)
  then show ?thesis
    using inv
    by (auto simp add: step_def split: option.splits
        intro!: world_ok_rerender world_ok_commit clickCareAction_ok
        dest: world_ok_current_pet)
next
  case (GameFinished g)
  then show ?thesis
    using inv ev
    by (auto simp add: step_def split: option.splits
        intro!: world_ok_rerender world_ok_commit handleGameComplete_ok gameReward_nonneg
        dest: world_ok_current_pet)
next
  case ClickBuyInsurance
  then show ?thesis
    using inv
    by (auto simp add: step_def split: option.splits
        intro!: world_ok_rerender world_ok_commit handleBuyInsurance_ok
        dest: world_ok_current_pet)
next
  case (ClickLearnTrick t)
  then show ?thesis
    using inv
    by (auto simp add: step_def split: option.splits
        intro!: world_ok_rerender world_ok_commit clickLearnTrick_ok
        dest: world_ok_current_pet)
next
  case (ClickPerformTrick t)
  show ?thesis
  proof (cases "current_pet w")
    case None
    then show ?thesis using inv ClickPerformTrick by (simp add: step_def)
  next
    case (Some p)
    obtain e pt where ept: "clickPerformTrick p (performingTrick w) t = (e, pt)"
      by (cases "clickPerformTrick p (performingTrick w) t")
    have "effects_ok e"
      using clickPerformTrick_ok [OF world_ok_current_pet [OF inv Some], of "performingTrick w" t]
        ept by simp
    then have "world_ok (commit (pet_id p) e w)" using inv by (rule world_ok_commit)
    then have "world_ok ((commit (pet_id p) e w)\<lparr>performingTrick := pt\<rparr>)"
      by (simp add: world_ok_def)
    then show ?thesis
      using inv Some ept ClickPerformTrick by (simp add: step_def world_ok_rerender)
  qed
next
  case (ClickBuyToy t)
  then show ?thesis
    using inv
    by (auto simp add: step_def split: option.splits
        intro!: world_ok_rerender world_ok_commit clickBuyToy_ok
        dest: world_ok_current_pet)
next
  case (ClickCreateMemorial ty ep now)
  then show ?thesis
    using inv by (simp add: step_def world_ok_rerender world_ok_handleCreateMemorial)
next
  case ClickAdoptNewPet
  then show ?thesis
    using inv by (simp add: step_def world_ok_rerender world_ok_handleAdoptNewPet)
next
  case (ClickResetPet confirmed)
  then show ?thesis
    using inv by (simp add: step_def world_ok_rerender world_ok_handleResetPet)
next
  case OpenPetCare
  then show ?thesis using inv by (simp add: step_def world_ok_mountPetCare)
next
  case (Adopt nm sel col)
  then show ?thesis using inv by (simp add: step_def world_ok_handleAdopt)
qed

lemma reachable_ok: "reachable w \<Longrightarrow> world_ok w"
  by (induction rule: reachable.induct) (simp_all add: world_ok_empty step_ok)

lemma reachable_in_bounds: "reachable w \<Longrightarrow> list_all in_bounds (pets w)"
  using reachable_ok by (simp add: world_ok_def)

text \<open>
  C5. In every state the application can reach, every operation (day advance, care
  action, game reward, insurance purchase, trick purchase and performance, toy purchase,
  and the effects, deletions and adoption as well) leaves hunger, happiness, energy,
  hygiene and health within 0 and 100, and coins, experience and days alive at 0 or more.
\<close>

theorem C5_stat_bounds:
  assumes "reachable w" and "valid_event ev"
  shows "\<forall>p \<in> set (pets (step ev w)).
           0 \<le> hunger p \<and> hunger p \<le> 100 \<and> 0 \<le> happiness p \<and> happiness p \<le> 100 \<and>
           0 \<le> energy p \<and> energy p \<le> 100 \<and> 0 \<le> hygiene p \<and> hygiene p \<le> 100 \<and>
           0 \<le> health p \<and> health p \<le> 100 \<and>
           0 \<le> coins p \<and> 0 \<le> experience p \<and> 0 \<le> days_alive p"
proof -
  have "list_all in_bounds (pets (step ev w))"
    using step_ok [OF reachable_ok [OF assms(1)] assms(2)] by (simp add: world_ok_def)
  then show ?thesis by (simp add: list_all_iff in_bounds_def)
qed

lemma reachable_adopted_world: "reachable adopted_world"
proof -
  have "reachable empty_world" by (rule reachable.start) (simp add: empty_world_def)
  moreover have "valid_event (Adopt ''Ember'' (Some Dragon) ''default'')"
    by (simp add: valid_event_def)
  ultimately show ?thesis unfolding adopted_world_def by (rule reachable.next_event)
qed

theorem C5_stat_bounds_witness:
  "reachable adopted_world \<and> valid_event (DayTimer 1 heavy_draws) \<and>
   length (pets (step (DayTimer 1 heavy_draws) adopted_world)) = 1 \<and>
   list_all in_bounds (pets (step (DayTimer 1 heavy_draws) adopted_world))"
proof -
  have v: "valid_event (DayTimer 1 heavy_draws)"
    by (simp add: valid_event_def valid_draws_def unit_draw_def heavy_draws_def)
  have l: "length (pets (step (DayTimer 1 heavy_draws) adopted_world)) = 1"
    by code_simp
  show ?thesis
    using C5_stat_bounds [OF reachable_adopted_world v] reachable_adopted_world v l
    by (simp add: list_all_iff in_bounds_def)
qed

section \<open>Day advance on the stored record\<close>








text \<open>
  C3 asks that a day advance on an insured pet never writes a health below 20. The day
  timer keeps the record it was set with, and buying insurance changes none of the day
  effect's dependencies: when the insurance is bought during the day,
  \<open>progressDay\<close> still reads \<open>has_insurance = false\<close>. The pet below has health 25 and
  two critical needs; it is insured, then the day ends: the insured record is left with
  health 13.5, no notification is shown and no daily payment is taken.
\<close>

theorem C3_insured_during_the_day:
  "mainScreen (page_on sick_pet) \<and> valid_draws half_draws \<and>
   map health (pets (page_on sick_pet)) = [25] \<and>
   map has_insurance (pets (step ClickBuyInsurance (page_on sick_pet))) = [True] \<and>
   map has_insurance
     (pets (step (DayTimer 1 half_draws) (step ClickBuyInsurance (page_on sick_pet)))) = [True] \<and>
   map health
     (pets (step (DayTimer 1 half_draws) (step ClickBuyInsurance (page_on sick_pet)))) = [27 / 2] \<and>
   toasts (step (DayTimer 1 half_draws) (step ClickBuyInsurance (page_on sick_pet)))
     = [InsuranceActivated] \<and>
   map description
     (expenses (step (DayTimer 1 half_draws) (step ClickBuyInsurance (page_on sick_pet))))
     = [''Insurance activation fee'']"
  by code_simp

section \<open>Adoption\<close>

lemma expenses_fold_Expense_delete:
  "set (expenses (fold (\<lambda>e. Expense_delete (exp_id e)) es w))
     = {e \<in> set (expenses w). exp_id e \<notin> exp_id ` set es}"
  by (induction es arbitrary: w) (auto simp add: Expense_delete_def)

lemma expenses_deletePetAndExpenses:
  "set (expenses (deletePetAndExpenses p w))
     \<subseteq> {e \<in> set (expenses w). exp_pet_id e \<noteq> pet_id p}"
  by (auto simp add: deletePetAndExpenses_def Pet_delete_def expenses_fold_Expense_delete
      Expense_filter_def)

lemma expenses_fold_deletePetAndExpenses:
  "set (expenses (fold deletePetAndExpenses ps w))
     \<subseteq> {e \<in> set (expenses w). exp_pet_id e \<notin> pet_id ` set ps}"
proof (induction ps arbitrary: w)
  case Nil
  then show ?case by simp
next
  case (Cons p ps)
  show ?case
    using Cons.IH [of "deletePetAndExpenses p w"] expenses_deletePetAndExpenses [of p w]
    by auto
qed

lemma expenses_handleAdopt:
  "validatePetName nm = [] \<Longrightarrow>
   expenses (handleAdopt nm (Some sp) col w) = expenses (fold deletePetAndExpenses (pets w) w)"
  by (simp add: handleAdopt_def Let_def mountPetCare_def Pet_create_def)

text \<open>
  C10. A successful adoption (the name passes validation, a species is selected) leaves
  exactly one pet in the store, the new one: an egg of the chosen species with hunger,
  happiness, energy and hygiene 50, health 100, experience 0, 50 coins, no insurance, 0
  days alive and empty achievements, tricks and toys. Every pet that was there before is
  gone, and no expense of such a pet is left.
\<close>

theorem C10_adoption:
  assumes "validatePetName petName = []"
  shows "\<exists>q. pets (handleAdopt petName (Some selectedPet) selectedColor w) = [q] \<and>
           species q = selectedPet \<and> stage q = Egg \<and>
           hunger q = 50 \<and> happiness q = 50 \<and> energy q = 50 \<and> hygiene q = 50 \<and>
           health q = 100 \<and> experience q = 0 \<and> coins q = 50 \<and> \<not> has_insurance q \<and>
           days_alive q = 0 \<and> achievements q = [] \<and> tricks q = [] \<and> toys q = [] \<and>
           (\<forall>e \<in> set (expenses (handleAdopt petName (Some selectedPet) selectedColor w)).
               e \<in> set (expenses w) \<and> exp_pet_id e \<notin> pet_id ` set (pets w))"
proof -
  let ?w' = "handleAdopt petName (Some selectedPet) selectedColor w"
  let ?q = "newPet petName selectedPet selectedColor
              \<lparr>pet_id := next_id (fold deletePetAndExpenses (pets w) w)\<rparr>"
  have p: "pets ?w' = [?q]"
    using assms by (rule pets_handleAdopt)
  have e: "\<forall>e \<in> set (expenses ?w'). e \<in> set (expenses w) \<and> exp_pet_id e \<notin> pet_id ` set (pets w)"
    using expenses_fold_deletePetAndExpenses [of "pets w" w] assms
    by (auto simp add: expenses_handleAdopt)
  have f: "species ?q = selectedPet \<and> stage ?q = Egg \<and>
           hunger ?q = 50 \<and> happiness ?q = 50 \<and> energy ?q = 50 \<and> hygiene ?q = 50 \<and>
           health ?q = 100 \<and> experience ?q = 0 \<and> coins ?q = 50 \<and> \<not> has_insurance ?q \<and>
           days_alive ?q = 0 \<and> achievements ?q = [] \<and> tricks ?q = [] \<and> toys ?q = []"
    by (simp add: newPet_def)
  from p e f show ?thesis by blast
qed

lemma validate_Ember: "validatePetName ''Ember'' = []"
  by code_simp

theorem C10_adoption_witness:
  "validatePetName ''Ember'' = [] \<and> length (pets crowded_world) = 2 \<and>
   length (expenses crowded_world) = 2 \<and>
   map stage (pets (handleAdopt ''Ember'' (Some Phoenix) ''frost'' crowded_world)) = [Egg] \<and>
   map coins (pets (handleAdopt ''Ember'' (Some Phoenix) ''frost'' crowded_world)) = [50] \<and>
   expenses (handleAdopt ''Ember'' (Some Phoenix) ''frost'' crowded_world) = []"
proof -
  have c: "length (pets crowded_world) = 2 \<and> length (expenses crowded_world) = 2 \<and>
     pet_id ` set (pets crowded_world) = {1, 2} \<and>
     exp_pet_id ` set (expenses crowded_world) = {1, 2}"
    by (simp add: crowded_world_def empty_world_def frail_pet_def insured_pet_def)
  obtain q where q: "pets (handleAdopt ''Ember'' (Some Phoenix) ''frost'' crowded_world) = [q]"
    "stage q = Egg" "coins q = 50"
    and e: "\<forall>e \<in> set (expenses (handleAdopt ''Ember'' (Some Phoenix) ''frost'' crowded_world)).
       e \<in> set (expenses crowded_world) \<and> exp_pet_id e \<notin> pet_id ` set (pets crowded_world)"
    using C10_adoption [OF validate_Ember, of Phoenix "''frost''" crowded_world] by blast
  have "expenses (handleAdopt ''Ember'' (Some Phoenix) ''frost'' crowded_world) = []"
  proof (cases "expenses (handleAdopt ''Ember'' (Some Phoenix) ''frost'' crowded_world)")
    case Nil
    then show ?thesis .
  next
    case (Cons x xs)
    then have "x \<in> set (expenses crowded_world)"
      and "exp_pet_id x \<notin> pet_id ` set (pets crowded_world)" using e by simp_all
    moreover from this(1) have "exp_pet_id x \<in> exp_pet_id ` set (expenses crowded_world)"
      by (rule imageI)
    ultimately show ?thesis using c by simp
  qed
  then show ?thesis using q c validate_Ember by simp
qed

section \<open>Prices, the expense ledger and the shops\<close>

text \<open>
  C6 asks that a successful care action lowers the coins by exactly
  \<open>ceil (b * costMultiplier)\<close>. The button computes and shows that price and is enabled
  from it, but \<open>handleCareAction\<close> charges and records the unrounded product: at five
  days of age Clean (base cost 7) is shown at 9 and charged 8.4.
\<close>

theorem C6_charge_not_rounded:
  "(''clean'', 7) \<in> set actions \<and> coins aged_pet = 50 \<and>
   actualCost 7 (getCostMultiplier (Some aged_pet)) = 9 \<and>
   coins (after (clickCareAction aged_pet False (''clean'', 7)) aged_pet) = 50 - 42 / 5 \<and>
   map ed_amount (created (clickCareAction aged_pet False (''clean'', 7))) = [42 / 5]"
  by code_simp

text \<open>
  Every path that writes an expense does so with its deduction: a care action that goes
  through at a nonzero cost, the daily billing of an insured pet and the insurance
  activation each create exactly one expense entry with the pet's identifier, the type,
  the amount and a description. The trick and the toy purchase deduct and create none.
\<close>

lemma expense_entries_by_path:
  "(mutation (handleCareAction (Some p) action baseCost) \<noteq> None \<and>
      0 < baseCost * getCostMultiplier (Some p) \<longrightarrow>
      coins (after (handleCareAction (Some p) action baseCost) p)
        = coins p - baseCost * getCostMultiplier (Some p) \<and>
      length (created (handleCareAction (Some p) action baseCost)) = 1 \<and>
      map ed_pet_id (created (handleCareAction (Some p) action baseCost)) = [pet_id p] \<and>
      map ed_type (created (handleCareAction (Some p) action baseCost)) = [action] \<and>
      map ed_amount (created (handleCareAction (Some p) action baseCost))
        = [baseCost * getCostMultiplier (Some p)])
 \<and> (has_insurance p \<longrightarrow>
      coins (after (progressDay p now d) p) = max 0 (coins p - getInsuranceCost (Some p)) \<and>
      created (progressDay p now d) =
        [\<lparr>ed_pet_id = pet_id p, ed_type = ''insurance'',
          ed_amount = getInsuranceCost (Some p),
          ed_description = ''Daily insurance payment''\<rparr>])
 \<and> (\<not> has_insurance p \<longrightarrow>
      coins (after (progressDay p now d) p) = coins p \<and> created (progressDay p now d) = [])
 \<and> (15 \<le> coins p \<longrightarrow>
      coins (after (handleBuyInsurance (Some p)) p) = coins p - 15 \<and>
      created (handleBuyInsurance (Some p)) =
        [\<lparr>ed_pet_id = pet_id p, ed_type = ''insurance'', ed_amount = 15,
          ed_description = ''Insurance activation fee''\<rparr>])
 \<and> (trick_id t \<notin> set (tricks p) \<and> trick_cost t \<le> coins p \<longrightarrow>
      coins (after (clickLearnTrick p t) p) = coins p - trick_cost t \<and>
      created (clickLearnTrick p t) = [])
 \<and> (toy_owned_key y \<notin> set (toys p) \<and> toy_cost y \<le> coins p \<longrightarrow>
      coins (after (clickBuyToy p y) p) = coins p - toy_cost y \<and>
      created (clickBuyToy p y) = [])"
proof -
  let ?cost = "baseCost * getCostMultiplier (Some p)"
  have care: "mutation (handleCareAction (Some p) action baseCost) \<noteq> None \<and> 0 < ?cost \<longrightarrow>
      coins (after (handleCareAction (Some p) action baseCost) p) = coins p - ?cost \<and>
      length (created (handleCareAction (Some p) action baseCost)) = 1 \<and>
      map ed_pet_id (created (handleCareAction (Some p) action baseCost)) = [pet_id p] \<and>
      map ed_type (created (handleCareAction (Some p) action baseCost)) = [action] \<and>
      map ed_amount (created (handleCareAction (Some p) action baseCost)) = [?cost]"
    by (auto simp add: handleCareAction_def Let_def no_effects_def careSwitch_def after_def
        apply_update_def or_else_def no_update_def)
  have billed: "has_insurance p \<longrightarrow>
      coins (after (progressDay p now d) p) = max 0 (coins p - getInsuranceCost (Some p)) \<and>
      created (progressDay p now d) =
        [\<lparr>ed_pet_id = pet_id p, ed_type = ''insurance'',
          ed_amount = getInsuranceCost (Some p),
          ed_description = ''Daily insurance payment''\<rparr>]"
    by (simp add: progressDay_def Let_def after_def apply_update_def or_else_def
        decayUpdates_def no_update_def)
  have unbilled: "\<not> has_insurance p \<longrightarrow>
      coins (after (progressDay p now d) p) = coins p \<and> created (progressDay p now d) = []"
    by (simp add: progressDay_def Let_def after_def apply_update_def or_else_def
        decayUpdates_def no_update_def insuranceSaves_def)
  have activation: "15 \<le> coins p \<longrightarrow>
      coins (after (handleBuyInsurance (Some p)) p) = coins p - 15 \<and>
      created (handleBuyInsurance (Some p)) =
        [\<lparr>ed_pet_id = pet_id p, ed_type = ''insurance'', ed_amount = 15,
          ed_description = ''Insurance activation fee''\<rparr>]"
    by (simp add: handleBuyInsurance_def after_def apply_update_def or_else_def no_update_def)
  have trick: "trick_id t \<notin> set (tricks p) \<and> trick_cost t \<le> coins p \<longrightarrow>
      coins (after (clickLearnTrick p t) p) = coins p - trick_cost t \<and>
      created (clickLearnTrick p t) = []"
    by (simp add: clickLearnTrick_def Let_def after_def apply_update_def or_else_def
        no_update_def)
  have toyp: "toy_owned_key y \<notin> set (toys p) \<and> toy_cost y \<le> coins p \<longrightarrow>
      coins (after (clickBuyToy p y) p) = coins p - toy_cost y \<and>
      created (clickBuyToy p y) = []"
    by (simp add: clickBuyToy_def Let_def after_def apply_update_def or_else_def
        no_update_def)
  from care billed unbilled activation trick toyp show ?thesis by blast
qed

text \<open>
  C7 asks for one expense entry with every deduction of coins, trick and toy purchases
  included. The handlers of the care actions and of the insurance send
  \<open>Expense.create\<close>, and the expense chart has an icon and a colour for the types
  \<open>trick\<close> and \<open>toy\<close>; the two purchase handlers send only the pet update. Buying the
  20-coin trick with 20 coins, or the 20-coin toy with 40, takes the coins and leaves the
  ledger empty.
\<close>

theorem C7_purchase_without_expense:
  "mainScreen (page_on pet20) \<and> roll_trick \<in> set trickCatalog \<and>
   map coins (pets (page_on pet20)) = [20] \<and> expenses (page_on pet20) = [] \<and>
   map coins (pets (step (ClickLearnTrick roll_trick) (page_on pet20))) = [0] \<and>
   map tricks (pets (step (ClickLearnTrick roll_trick) (page_on pet20))) = [[''roll'']] \<and>
   expenses (step (ClickLearnTrick roll_trick) (page_on pet20)) = [] \<and>
   squeaky_toy \<in> set toyCatalog \<and>
   map coins (pets (step (ClickBuyToy squeaky_toy) (page_on pet40))) = [20] \<and>
   expenses (step (ClickBuyToy squeaky_toy) (page_on pet40)) = []"
  by code_simp

text \<open>
  C8 asks that an owned toy cannot be bought again and that the owned sets stay free of
  duplicates. The shop row tests \<open>pet.toys\<close> for \<open>squeaky\<close>, the purchase stores
  \<open>squeakytoy\<close>: the Squeaky Toy stays on sale, and a second click buys it again.
\<close>

theorem C8_toy_bought_twice:
  "squeaky_toy \<in> set toyCatalog \<and> coins pet40 = 40 \<and> toys pet40 = [] \<and>
   toys (after (clickBuyToy pet40 squeaky_toy) pet40) = [''squeakytoy''] \<and>
   toys (after (clickBuyToy (after (clickBuyToy pet40 squeaky_toy) pet40) squeaky_toy)
          (after (clickBuyToy pet40 squeaky_toy) pet40)) = [''squeakytoy'', ''squeakytoy''] \<and>
   coins (after (clickBuyToy (after (clickBuyToy pet40 squeaky_toy) pet40) squeaky_toy)
          (after (clickBuyToy pet40 squeaky_toy) pet40)) = 0 \<and>
   happiness (after (clickBuyToy (after (clickBuyToy pet40 squeaky_toy) pet40) squeaky_toy)
          (after (clickBuyToy pet40 squeaky_toy) pet40)) = 70"
  by code_simp

text \<open>
  The trick half of the purchase rule holds as the specification has it: an owned trick
  or too few coins change nothing, a purchase appends the identifier once and keeps the
  list free of duplicates; with 20 coins the 20-coin trick leaves 0 coins, and the second
  attempt is turned down.
\<close>

lemma learn_trick_rule:
  "(trick_id t \<in> set (tricks p) \<or> coins p < trick_cost t \<longrightarrow>
      clickLearnTrick p t = no_effects)
 \<and> (trick_id t \<notin> set (tricks p) \<and> trick_cost t \<le> coins p \<longrightarrow>
      tricks (after (clickLearnTrick p t) p) = tricks p @ [trick_id t] \<and>
      coins (after (clickLearnTrick p t) p) = coins p - trick_cost t \<and>
      (distinct (tricks p) \<longrightarrow> distinct (tricks (after (clickLearnTrick p t) p))))"
  by (auto simp add: clickLearnTrick_def Let_def after_def apply_update_def or_else_def
      no_update_def)

lemma learn_roll_with_20_coins:
  "coins (after (clickLearnTrick pet20 roll_trick) pet20) = 0 \<and>
   tricks (after (clickLearnTrick pet20 roll_trick) pet20) = [''roll''] \<and>
   clickLearnTrick (after (clickLearnTrick pet20 roll_trick) pet20) roll_trick = no_effects"
  by code_simp

section \<open>After death\<close>

text \<open>
  C2 as stated fails: the day timer is set whenever there is a pet and \<open>progressDay\<close>
  tests neither the health nor \<open>petDied\<close>. With the death recorded and the memorial
  screen up, the next day advance still counts a day and a point of experience and decays
  the needs.
\<close>

theorem C2_counterexample:
  "recorded_dead dead_world \<and> valid_event (DayTimer 1 zero_draws) \<and>
   map days_alive (pets dead_world) = [0] \<and>
   map days_alive (pets (step (DayTimer 1 zero_draws) dead_world)) = [1] \<and>
   map experience (pets (step (DayTimer 1 zero_draws) dead_world)) = [1] \<and>
   map hunger (pets dead_world) = [10] \<and>
   map hunger (pets (step (DayTimer 1 zero_draws) dead_world)) = [5]"
  by code_simp

lemma recorded_dead_screens:
  "recorded_dead w \<Longrightarrow> \<not> mainScreen w \<and> memorialScreen w \<and> petDied w"
  by (auto simp add: recorded_dead_def mainScreen_def memorialScreen_def split: option.splits)

lemma Pet_delete_subset: "set (pets (Pet_delete i w)) \<subseteq> set (pets w)"
  by (auto simp add: Pet_delete_def)

lemma handleCreateMemorial_subset:
  "set (pets (handleCreateMemorial ty ep now w)) \<subseteq> set (pets w)"
  by (auto simp add: handleCreateMemorial_def Let_def Pet_delete_def split: option.splits)

lemma handleAdoptNewPet_subset: "set (pets (handleAdoptNewPet w)) \<subseteq> set (pets w)"
  by (auto simp add: handleAdoptNewPet_def Pet_delete_def split: option.splits)

lemma handleResetPet_subset: "set (pets (handleResetPet c w)) \<subseteq> set (pets w)"
  by (auto simp add: handleResetPet_def Pet_delete_def split: option.splits)

lemma handleAdopt_pets:
  "pets (handleAdopt nm sel col w) = pets w \<or>
   (\<exists>sp i. pets (handleAdopt nm sel col w) = [newPet nm sp col\<lparr>pet_id := i\<rparr>])"
proof (cases "validatePetName nm = [] \<and> sel \<noteq> None")
  case True
  then obtain sp where "sel = Some sp" by blast
  with True show ?thesis using pets_handleAdopt [of nm sp col w] by blast
next
  case False
  then show ?thesis by (auto simp add: handleAdopt_def)
qed

text \<open>
  C2, amended. Once a pet's death is recorded (health at most 0, \<open>petDied\<close> set, the
  death statistics captured) the care interface is gone: care actions, game rewards,
  insurance purchase, trick purchase and performance, toy purchase and reset change
  nothing at all. Apart from the day timer and the evolution check, which are not gated on
  death, every operation leaves each pet record either untouched or deleted (memorial
  creation, new adoption), a completed adoption leaving just the newly created pet.
\<close>

theorem C2_dead_pet_operations:
  assumes "recorded_dead w"
  shows "(care_control ev \<longrightarrow> step ev w = w)
       \<and> (\<not> timer_or_evolution ev \<longrightarrow>
            set (pets (step ev w)) \<subseteq> set (pets w) \<or>
            (\<exists>nm sp col i. pets (step ev w) = [newPet nm sp col\<lparr>pet_id := i\<rparr>]))"
proof -
  note scr = recorded_dead_screens [OF assms]
  have controls: "care_control ev \<longrightarrow> step ev w = w"
    using scr by (cases ev) (simp_all add: care_control_def step_def split: option.splits)
  have others: "\<not> timer_or_evolution ev \<longrightarrow>
            set (pets (step ev w)) \<subseteq> set (pets w) \<or>
            (\<exists>nm sp col i. pets (step ev w) = [newPet nm sp col\<lparr>pet_id := i\<rparr>])"
  proof (cases ev)
    case (ClickCreateMemorial ty ep now)
    then show ?thesis using handleCreateMemorial_subset by (simp add: step_def pets_rerender)
  next
    case ClickAdoptNewPet
    then show ?thesis using handleAdoptNewPet_subset by (simp add: step_def pets_rerender)
  next
    case (Adopt nm sel col)
    then show ?thesis using handleAdopt_pets [of nm sel col w] by (auto simp add: step_def)
  next
    case DeathEffect
    then show ?thesis by (simp add: step_def deathCheck_pets)
  qed (use scr in \<open>simp_all add: timer_or_evolution_def step_def mountPetCare_def
         split: option.splits\<close>)
  from controls others show ?thesis by blast
qed

theorem C2_dead_pet_operations_witness:
  "recorded_dead dead_world \<and> care_control (ClickCare (''feed'', 10)) \<and>
   step (ClickCare (''feed'', 10)) dead_world = dead_world \<and>
   \<not> timer_or_evolution ClickAdoptNewPet \<and> pets (step ClickAdoptNewPet dead_world) = []"
proof -
  have d: "recorded_dead dead_world \<and> care_control (ClickCare (''feed'', 10)) \<and>
     \<not> timer_or_evolution ClickAdoptNewPet \<and> pets (step ClickAdoptNewPet dead_world) = []"
    by code_simp
  then show ?thesis
    using C2_dead_pet_operations [of dead_world "ClickCare (''feed'', 10)"] by simp
qed

end
